theory Spec2Isabelle
  imports Complex_Main "HOL-Library.Sublist"
begin

section \<open>Configuration model\<close>

text \<open>
  The server of \<^verbatim>\<open>upload_server.js\<close> is driven by \<^verbatim>\<open>config/config.json\<close>:
  a list of tabs, each with a list of members. A tab may also carry an \<^verbatim>\<open>upload\<close> and a
  \<^verbatim>\<open>download\<close> object, which the startup code and the browse handler of
  \<^verbatim>\<open>upload_server.mjs\<close> read through \<^verbatim>\<open>tab.upload?.upload_directory\<close>
  (\<open>tab_upload_directory\<close>) and \<^verbatim>\<open>tab.download?.root_directory\<close>
  (\<open>tab_download_root\<close>). A member is a JSON object whose
  \<^verbatim>\<open>type\<close> field is a string; every other field may be absent (\<open>None\<close>).
  Fields are taken to be strings (or, for \<^verbatim>\<open>allowed_extensions\<close>, an array of strings
  and, for \<^verbatim>\<open>max_file_size\<close>, a number) whenever they are present.
\<close>

record member =
  mtype :: string
  button_name :: "string option"
  topic :: "string option"
  unit :: "string option"
  publish_topic :: "string option"
  upload_directory :: "string option"
  root_directory :: "string option"
  allowed_extensions :: "string list option"
  max_file_size :: "int option"

record tab =
  tab_id :: string
  members :: "member list"
  tab_upload_directory :: "string option"
  tab_download_root :: "string option"

record config =
  tabs :: "tab list"
  broker_host :: string
  broker_port :: nat

text \<open>JavaScript truthiness of an optional string: absent and \<^verbatim>\<open>''\<close> are falsy.\<close>

definition truthy :: "string option \<Rightarrow> bool" where
  "truthy v = (case v of None \<Rightarrow> False | Some s \<Rightarrow> s \<noteq> [])"

text \<open>\<^verbatim>\<open>x || null\<close> on an optional string.\<close>

definition or_null :: "string option \<Rightarrow> string option" where
  "or_null v = (if truthy v then v else None)"

text \<open>A template literal \<^verbatim>\<open>${member.button_name}\<close>: an absent field prints as \<^verbatim>\<open>undefined\<close>.\<close>

definition show_field :: "string option \<Rightarrow> string" where
  "show_field v = (case v of None \<Rightarrow> ''undefined'' | Some s \<Rightarrow> s)"

subsection \<open>Lookup helpers\<close>

text \<open>
  \<^verbatim>\<open>for (const tab of config.tabs) for (const member of tab.members) if (...) return member\<close>:
  the inner and the outer loop of all three helpers.
\<close>

fun find_member :: "(member \<Rightarrow> bool) \<Rightarrow> member list \<Rightarrow> member option" where
  "find_member p [] = None"
| "find_member p (m # ms) = (if p m then Some m else find_member p ms)"

fun find_in_tabs :: "(member \<Rightarrow> bool) \<Rightarrow> tab list \<Rightarrow> member option" where
  "find_in_tabs p [] = None"
| "find_in_tabs p (t # ts) =
     (case find_member p (members t) of Some m \<Rightarrow> Some m | None \<Rightarrow> find_in_tabs p ts)"

definition policy_match :: "string \<Rightarrow> string option \<Rightarrow> member \<Rightarrow> bool" where
  "policy_match ty buttonName m =
     (mtype m = ty \<and> (\<not> truthy buttonName \<or> button_name m = buttonName))"

definition getUploadConfig :: "config \<Rightarrow> string option \<Rightarrow> member option" where
  "getUploadConfig cfg buttonName = find_in_tabs (policy_match ''upload'' buttonName) (tabs cfg)"

definition getDownloadConfig :: "config \<Rightarrow> string option \<Rightarrow> member option" where
  "getDownloadConfig cfg buttonName = find_in_tabs (policy_match ''download'' buttonName) (tabs cfg)"

text \<open>
  The first two lines of the upload handler:
  \<^verbatim>\<open>const buttonName = req.body.button_name || null;
  const uploadCfg = getUploadConfig(buttonName) || getUploadConfig();\<close>
\<close>

definition resolve_upload_policy :: "config \<Rightarrow> string option \<Rightarrow> member option" where
  "resolve_upload_policy cfg body_button_name =
     (case getUploadConfig cfg (or_null body_button_name) of
        Some m \<Rightarrow> Some m
      | None \<Rightarrow> getUploadConfig cfg None)"

definition resolve_download_policy :: "config \<Rightarrow> string option \<Rightarrow> member option" where
  "resolve_download_policy cfg query_button_name =
     (case getDownloadConfig cfg (or_null query_button_name) of
        Some m \<Rightarrow> Some m
      | None \<Rightarrow> getDownloadConfig cfg None)"

text \<open>All members of a configuration, in the order the nested loops visit them.\<close>

definition all_members :: "config \<Rightarrow> member list" where
  "all_members cfg = concat (map members (tabs cfg))"

text \<open>
  \<^verbatim>\<open>const filesTab = config.tabs.find(tab => tab.id === 'files')\<close>, and the two
  optional chains read from it.
\<close>

definition filesTab :: "config \<Rightarrow> tab option" where
  "filesTab cfg = List.find (\<lambda>t. tab_id t = ''files'') (tabs cfg)"

definition filesTab_upload_directory :: "config \<Rightarrow> string option" where
  "filesTab_upload_directory cfg =
     (case filesTab cfg of None \<Rightarrow> None | Some t \<Rightarrow> tab_upload_directory t)"

definition filesTab_download_root :: "config \<Rightarrow> string option" where
  "filesTab_download_root cfg =
     (case filesTab cfg of None \<Rightarrow> None | Some t \<Rightarrow> tab_download_root t)"

subsection \<open>Startup validation\<close>

definition has_button_name :: "member \<Rightarrow> bool" where
  "has_button_name m =
     ((mtype m = ''upload'' \<or> mtype m = ''download'' \<or> mtype m = ''button'')
      \<and> truthy (button_name m))"

definition duplicate_error :: "string \<Rightarrow> string" where
  "duplicate_error n = ''Duplicate button_name found in config: '' @ n"

text \<open>The body of the inner loop of \<^verbatim>\<open>validateConfig\<close>; a \<^verbatim>\<open>throw\<close> is \<open>Inl\<close> of the message.\<close>

definition check_fields :: "member \<Rightarrow> string option" where
  "check_fields m =
     (if mtype m = ''upload'' \<and> \<not> truthy (upload_directory m) then
        Some (''Upload config missing upload_directory for button: '' @ show_field (button_name m))
      else if mtype m = ''upload'' \<and> allowed_extensions m = None then
        Some (''Upload config missing allowed_extensions for button: '' @ show_field (button_name m))
      else if mtype m = ''download'' \<and> \<not> truthy (root_directory m) then
        Some (''Download config missing root_directory for button: '' @ show_field (button_name m))
      else if mtype m = ''download'' \<and> allowed_extensions m = None then
        Some (''Download config missing allowed_extensions for button: '' @ show_field (button_name m))
      else if mtype m = ''button'' \<and> \<not> truthy (publish_topic m) then
        Some (''Button config missing publish_topic for button: '' @ show_field (button_name m))
      else None)"

definition validate_member :: "string set \<Rightarrow> member \<Rightarrow> string + string set" where
  "validate_member buttonNames m =
     (if has_button_name m \<and> show_field (button_name m) \<in> buttonNames then
        Inl (duplicate_error (show_field (button_name m)))
      else
        (let buttonNames' =
               (if has_button_name m then insert (show_field (button_name m)) buttonNames
                else buttonNames)
         in case check_fields m of Some e \<Rightarrow> Inl e | None \<Rightarrow> Inr buttonNames'))"

fun validate_members :: "string set \<Rightarrow> member list \<Rightarrow> string + string set" where
  "validate_members buttonNames [] = Inr buttonNames"
| "validate_members buttonNames (m # ms) =
     (case validate_member buttonNames m of
        Inl e \<Rightarrow> Inl e
      | Inr buttonNames' \<Rightarrow> validate_members buttonNames' ms)"

fun validate_tabs :: "string set \<Rightarrow> tab list \<Rightarrow> string + string set" where
  "validate_tabs buttonNames [] = Inr buttonNames"
| "validate_tabs buttonNames (t # ts) =
     (case validate_members buttonNames (members t) of
        Inl e \<Rightarrow> Inl e
      | Inr buttonNames' \<Rightarrow> validate_tabs buttonNames' ts)"

definition validateConfig :: "config \<Rightarrow> string + unit" where
  "validateConfig cfg =
     (case validate_tabs {} (tabs cfg) of Inl e \<Rightarrow> Inl e | Inr _ \<Rightarrow> Inr ())"

text \<open>
  \<^verbatim>\<open>try { validateConfig(config) } catch (e) { console.error(...); process.exit(1) }\<close>
  runs before the server is created: the process either exits with status 1 or goes on
  to serve.
\<close>

datatype startup = Exited nat string | Serving

definition startup_of :: "config \<Rightarrow> startup" where
  "startup_of cfg =
     (case validateConfig cfg of
        Inl e \<Rightarrow> Exited 1 (''Config validation failed: '' @ e)
      | Inr _ \<Rightarrow> Serving)"

text \<open>The non-empty button names of the Button, Upload and Download members, in order.\<close>

definition button_names :: "member list \<Rightarrow> string list" where
  "button_names ms = map (\<lambda>m. show_field (button_name m)) (filter has_button_name ms)"

text \<open>An error message of one of the five missing-field checks, whatever button it names.\<close>

definition missing_field_error :: "string \<Rightarrow> bool" where
  "missing_field_error e =
     (\<exists>p \<in> set [''Upload config missing upload_directory for button: '',
                    ''Upload config missing allowed_extensions for button: '',
                    ''Download config missing root_directory for button: '',
                    ''Download config missing allowed_extensions for button: '',
                    ''Button config missing publish_topic for button: '']. prefix p e)"

section \<open>Paths\<close>

text \<open>
  The handlers build paths with Node's \<^verbatim>\<open>path\<close> module. The server runs on Linux, so
  this is \<^verbatim>\<open>path.posix\<close>: the only separator is \<^verbatim>\<open>/\<close>. Node's \<^verbatim>\<open>normalizeString\<close>
  walks the characters of a path; the model walks its \<^verbatim>\<open>/\<close>-separated segments, with the
  same cases: an empty segment and \<^verbatim>\<open>.\<close> are skipped, \<^verbatim>\<open>..\<close> removes the last segment
  kept so far (unless that is itself \<^verbatim>\<open>..\<close>), is kept when nothing is left and the path
  is relative, and is dropped when nothing is left and the path is absolute.
\<close>

text \<open>\<^verbatim>\<open>s.split(c)\<close> for a one-character separator: \<^verbatim>\<open>''.split('/')\<close> is \<^verbatim>\<open>['']\<close>.\<close>

fun split_on :: "char \<Rightarrow> string \<Rightarrow> string list" where
  "split_on c [] = [[]]"
| "split_on c (x # xs) =
     (if x = c then [] # split_on c xs
      else (case split_on c xs of [] \<Rightarrow> [[x]] | s # ss \<Rightarrow> (x # s) # ss))"

text \<open>\<^verbatim>\<open>segments.join(sep)\<close>.\<close>

fun join_with :: "string \<Rightarrow> string list \<Rightarrow> string" where
  "join_with sep [] = []"
| "join_with sep [s] = s"
| "join_with sep (s # t # ss) = s @ sep @ join_with sep (t # ss)"

fun normalize_segments :: "bool \<Rightarrow> string list \<Rightarrow> string list \<Rightarrow> string list" where
  "normalize_segments allowAboveRoot res [] = res"
| "normalize_segments allowAboveRoot res (s # ss) =
     (if s = [] \<or> s = ''.'' then normalize_segments allowAboveRoot res ss
      else if s = ''..'' then
        (if res \<noteq> [] \<and> last res \<noteq> ''..''
           then normalize_segments allowAboveRoot (butlast res) ss
         else if allowAboveRoot
           then normalize_segments allowAboveRoot (res @ [''..'']) ss
         else normalize_segments allowAboveRoot res ss)
      else normalize_segments allowAboveRoot (res @ [s]) ss)"

definition normalizeString :: "string \<Rightarrow> bool \<Rightarrow> string" where
  "normalizeString path allowAboveRoot =
     join_with ''/'' (normalize_segments allowAboveRoot [] (split_on CHR ''/'' path))"

definition isAbsolute :: "string \<Rightarrow> bool" where
  "isAbsolute path = (case path of [] \<Rightarrow> False | c # _ \<Rightarrow> c = CHR ''/'')"

definition path_normalize :: "string \<Rightarrow> string" where
  "path_normalize path =
     (if path = [] then ''.''
      else
        (let trailingSeparator = (last path = CHR ''/'');
             p = normalizeString path (\<not> isAbsolute path)
         in if p = [] then
              (if isAbsolute path then ''/'' else if trailingSeparator then ''./'' else ''.'')
            else
              (if isAbsolute path then ''/'' else []) @ p
                @ (if trailingSeparator then ''/'' else [])))"

text \<open>\<^verbatim>\<open>path.join(a, b)\<close>: the non-empty arguments joined by \<^verbatim>\<open>/\<close>, then normalized.\<close>

definition path_join :: "string \<Rightarrow> string \<Rightarrow> string" where
  "path_join a b =
     (let parts = filter (\<lambda>s. s \<noteq> []) [a, b]
      in if parts = [] then ''.'' else path_normalize (join_with ''/'' parts))"

text \<open>
  \<^verbatim>\<open>path.resolve(p)\<close> with one argument; \<open>cwd\<close> is \<^verbatim>\<open>process.cwd()\<close>, read only when
  \<open>p\<close> is relative. The result has no trailing separator.
\<close>

definition path_resolve :: "string \<Rightarrow> string \<Rightarrow> string" where
  "path_resolve cwd p =
     (let resolvedPath =
            (if p = [] then cwd @ ''/''
             else if isAbsolute p then p @ ''/''
             else cwd @ ''/'' @ p @ ''/'');
          resolvedAbsolute = isAbsolute resolvedPath;
          r = normalizeString resolvedPath (\<not> resolvedAbsolute)
      in if resolvedAbsolute then ''/'' @ r else if r = [] then ''.'' else r)"

text \<open>
  \<^verbatim>\<open>path.extname(p)\<close>: from the last \<^verbatim>\<open>.\<close> of the last segment (trailing separators
  ignored) to its end; empty when that segment has no \<^verbatim>\<open>.\<close>, when its only \<^verbatim>\<open>.\<close> is
  its first character, or when the segment is \<^verbatim>\<open>..\<close>.
\<close>

definition basename_part :: "string \<Rightarrow> string" where
  "basename_part p =
     rev (takeWhile (\<lambda>c. c \<noteq> CHR ''/'') (dropWhile (\<lambda>c. c = CHR ''/'') (rev p)))"

definition extname :: "string \<Rightarrow> string" where
  "extname p =
     (let base = basename_part p;
          after_dot = rev (takeWhile (\<lambda>c. c \<noteq> CHR ''.'') (rev base))
      in if CHR ''.'' \<notin> set base then []
         else if length after_dot + 1 = length base then []
         else if base = ''..'' then []
         else CHR ''.'' # after_dot)"

text \<open>\<^verbatim>\<open>resolveDir(baseDir, dir)\<close>.\<close>

definition resolveDir :: "string \<Rightarrow> string \<Rightarrow> string" where
  "resolveDir baseDir dir = (if isAbsolute dir then dir else path_join baseDir dir)"

text \<open>
  The segments of a path that name something: a path lies inside a directory when the
  directory's segments are a prefix of its own. (On the canonical paths that
  \<^verbatim>\<open>path.resolve\<close> returns this is the descendant-or-self relation of the file tree.)
\<close>

definition segments_of :: "string \<Rightarrow> string list" where
  "segments_of p = filter (\<lambda>s. s \<noteq> []) (split_on CHR ''/'' p)"

definition inside :: "string \<Rightarrow> string \<Rightarrow> bool" where
  "inside dir p = prefix (segments_of dir) (segments_of p)"

text \<open>
  The segments Node keeps when it normalizes an absolute path; a segment that can stand
  in a normalized path; and whether a string has two dots in a row.
\<close>

definition canonical_segments :: "string \<Rightarrow> string list" where
  "canonical_segments p = normalize_segments False [] (split_on CHR ''/'' p)"

definition proper_segment :: "string \<Rightarrow> bool" where
  "proper_segment s = (s \<noteq> [] \<and> s \<noteq> ''.'' \<and> s \<noteq> ''..'' \<and> CHR ''/'' \<notin> set s)"

primrec has_dotdot :: "string \<Rightarrow> bool" where
  "has_dotdot [] = False"
| "has_dotdot (c # cs) =
     ((c = CHR ''.'' \<and> (case cs of [] \<Rightarrow> False | d # _ \<Rightarrow> d = CHR ''.'')) \<or> has_dotdot cs)"

section \<open>File system\<close>

text \<open>
  What the handlers see of the file system: which normalized absolute paths exist, and
  whether each is a regular file (with its size in bytes) or a directory.
\<close>

datatype node = File int | Dir

type_synonym filesystem = "string \<Rightarrow> node option"

definition existsSync :: "filesystem \<Rightarrow> string \<Rightarrow> bool" where
  "existsSync fs p = (fs p \<noteq> None)"

text \<open>\<^verbatim>\<open>fs.unlink\<close> removes a regular file and fails on anything else.\<close>

definition unlink :: "filesystem \<Rightarrow> string \<Rightarrow> string + filesystem" where
  "unlink fs p =
     (case fs p of
        Some (File _) \<Rightarrow> Inr (fs (p := None))
      | Some Dir \<Rightarrow> Inl ''EISDIR: illegal operation on a directory, unlink''
      | None \<Rightarrow> Inl ''ENOENT: no such file or directory, unlink'')"

section \<open>Delete endpoint\<close>

text \<open>
  \<^verbatim>\<open>app.delete('/api/delete/:filename', ...)\<close>. \<open>UPLOAD_DIR\<close> is the constant computed at
  startup; \<open>filename\<close> is \<^verbatim>\<open>req.params.filename\<close>, which Express has URL-decoded (so
  \<^verbatim>\<open>..%2F\<close> arrives as \<^verbatim>\<open>../\<close>).
\<close>

datatype delete_response = DeleteNotFound | DeleteFailed | DeleteSuccess

definition delete_status :: "delete_response \<Rightarrow> nat" where
  "delete_status r = (case r of DeleteNotFound \<Rightarrow> 404 | DeleteFailed \<Rightarrow> 500 | DeleteSuccess \<Rightarrow> 200)"

definition delete_target :: "string \<Rightarrow> string \<Rightarrow> string" where
  "delete_target UPLOAD_DIR filename = path_join UPLOAD_DIR filename"

definition delete_handler :: "string \<Rightarrow> filesystem \<Rightarrow> string \<Rightarrow> delete_response \<times> filesystem" where
  "delete_handler UPLOAD_DIR fs filename =
     (let filePath = delete_target UPLOAD_DIR filename
      in if \<not> existsSync fs filePath then (DeleteNotFound, fs)
         else (case unlink fs filePath of
                 Inl err \<Rightarrow> (DeleteFailed, fs)
               | Inr fs' \<Rightarrow> (DeleteSuccess, fs')))"

section \<open>Browse endpoint\<close>

text \<open>\<^verbatim>\<open>relPath.replace(/\\/g, '/')\<close>.\<close>

definition backslashes_to_slashes :: "string \<Rightarrow> string" where
  "backslashes_to_slashes s = map (\<lambda>c. if c = CHR 0x5C then CHR ''/'' else c) s"

text \<open>
  \<^verbatim>\<open>.replace(/\.{2,}/g, '')\<close>: every maximal run of two or more dots is removed, a
  single dot stays. \<open>n\<close> counts the dots of the run being read.
\<close>

fun strip_dot_runs :: "nat \<Rightarrow> string \<Rightarrow> string" where
  "strip_dot_runs n [] = (if n = 1 then ''.'' else [])"
| "strip_dot_runs n (c # cs) =
     (if c = CHR ''.'' then strip_dot_runs (Suc n) cs
      else (if n = 1 then ''.'' else []) @ c # strip_dot_runs 0 cs)"

definition sanitize_relPath :: "string option \<Rightarrow> string" where
  "sanitize_relPath query_path =
     strip_dot_runs 0 (backslashes_to_slashes (case query_path of None \<Rightarrow> [] | Some s \<Rightarrow> s))"

text \<open>
  A directory entry of \<^verbatim>\<open>fs.readdir(..., { withFileTypes: true })\<close>, and what the call
  does: it throws (an argument it refuses, such as a path with a NUL byte), it reports an
  error to its callback, or it delivers the entries.
\<close>

datatype dirent = DirectoryEntry string | FileEntry string | OtherEntry string

datatype readdir_result = ReaddirThrows string | ReaddirError | ReaddirEntries "dirent list"

datatype browse_response =
    BrowseError nat string
  | BrowseListing string "string list" "string list"

definition directories_of :: "dirent list \<Rightarrow> string list" where
  "directories_of entries = concat (map (\<lambda>e. case e of DirectoryEntry n \<Rightarrow> [n] | _ \<Rightarrow> []) entries)"

definition files_of :: "dirent list \<Rightarrow> string list" where
  "files_of entries = concat (map (\<lambda>e. case e of FileEntry n \<Rightarrow> [n] | _ \<Rightarrow> []) entries)"

text \<open>\<^verbatim>\<open>err.message || 'Browse failed'\<close>.\<close>

definition message_or :: "string \<Rightarrow> string \<Rightarrow> string" where
  "message_or msg dflt = (if msg = [] then dflt else msg)"

text \<open>
  \<^verbatim>\<open>app.get('/api/browse', ...)\<close> of \<^verbatim>\<open>upload_server.js\<close>. \<open>dirname\<close> is \<^verbatim>\<open>__dirname\<close>,
  \<open>readdir\<close> the file system as \<^verbatim>\<open>fs.readdir\<close> reads it. A download member without
  \<^verbatim>\<open>root_directory\<close> makes \<^verbatim>\<open>path.isAbsolute(undefined)\<close> throw a TypeError, which the
  handler's \<^verbatim>\<open>catch\<close> turns into a 400.
\<close>

definition browse :: "config \<Rightarrow> string \<Rightarrow> string \<Rightarrow> (string \<Rightarrow> readdir_result)
    \<Rightarrow> string option \<Rightarrow> string option \<Rightarrow> browse_response" where
  "browse cfg dirname cwd readdir query_button_name query_path =
     (case resolve_download_policy cfg query_button_name of
        None \<Rightarrow> BrowseError 400 ''No download config found''
      | Some downloadCfg \<Rightarrow>
          (case root_directory downloadCfg of
             None \<Rightarrow> BrowseError 400 ''The \"path\" argument must be of type string. Received undefined''
           | Some root_dir \<Rightarrow>
               (let rootDir = resolveDir dirname root_dir;
                    relPath = sanitize_relPath query_path;
                    absPath = path_join rootDir relPath;
                    resolvedRoot = path_resolve cwd rootDir;
                    resolvedAbs = path_resolve cwd absPath
                in if \<not> prefix resolvedRoot resolvedAbs then
                     BrowseError 400 ''Access outside of root directory is not allowed''
                   else
                     (case readdir absPath of
                        ReaddirThrows msg \<Rightarrow> BrowseError 400 (message_or msg ''Browse failed'')
                      | ReaddirError \<Rightarrow> BrowseError 500 ''Failed to list directory''
                      | ReaddirEntries entries \<Rightarrow>
                          BrowseListing relPath (directories_of entries) (files_of entries)))))"

text \<open>The directory a browse request reads, when it gets as far as reading one.\<close>

definition browse_root :: "config \<Rightarrow> string \<Rightarrow> string option \<Rightarrow> string option" where
  "browse_root cfg dirname query_button_name =
     (case resolve_download_policy cfg query_button_name of
        None \<Rightarrow> None
      | Some downloadCfg \<Rightarrow> map_option (resolveDir dirname) (root_directory downloadCfg))"

text \<open>
  The browse handler of \<^verbatim>\<open>upload_server.mjs\<close>. It does not look for a Download member:
  its root is \<^verbatim>\<open>filesTab?.download?.root_directory\<close> resolved against \<^verbatim>\<open>__dirname\<close>,
  or \<^verbatim>\<open>__dirname/uploads\<close> when the files tab declares none. It strips the pairs of
  dots that \<^verbatim>\<open>/\.\./g\<close> matches from left to right, and compares the joined path with
  the root as strings. It has no \<^verbatim>\<open>try\<close>: an exception reaches Express, which answers
  500.
\<close>

fun strip_dot_pairs :: "string \<Rightarrow> string" where
  "strip_dot_pairs (a # b # cs) =
     (if a = CHR ''.'' \<and> b = CHR ''.'' then strip_dot_pairs cs
      else a # strip_dot_pairs (b # cs))"
| "strip_dot_pairs cs = cs"

definition sanitize_relPath_mjs :: "string option \<Rightarrow> string" where
  "sanitize_relPath_mjs query_path =
     strip_dot_pairs (backslashes_to_slashes (case query_path of None \<Rightarrow> [] | Some s \<Rightarrow> s))"

definition rootDir_mjs :: "string \<Rightarrow> string option \<Rightarrow> string" where
  "rootDir_mjs dirname download_root =
     (if truthy download_root then
        (if isAbsolute (show_field download_root) then show_field download_root
         else path_join dirname (show_field download_root))
      else path_join dirname ''uploads'')"

definition browse_mjs :: "config \<Rightarrow> string \<Rightarrow> (string \<Rightarrow> readdir_result)
    \<Rightarrow> string option \<Rightarrow> browse_response" where
  "browse_mjs cfg dirname readdir query_path =
     (let rootDir = rootDir_mjs dirname (filesTab_download_root cfg);
          relPath = sanitize_relPath_mjs query_path;
          absPath = path_join rootDir relPath
      in if \<not> prefix rootDir absPath then BrowseError 400 ''Invalid path''
         else
           (case readdir absPath of
              ReaddirThrows msg \<Rightarrow> BrowseError 500 msg
            | ReaddirError \<Rightarrow> BrowseError 500 ''Failed to list directory''
            | ReaddirEntries entries \<Rightarrow>
                BrowseListing relPath (directories_of entries) (files_of entries)))"

section \<open>Upload endpoint\<close>

text \<open>
  Opening or renaming a path fails when a directory on the way to it is missing
  (\<^verbatim>\<open>ENOENT\<close>) or is not a directory (\<^verbatim>\<open>ENOTDIR\<close>). \<open>ancestors_of\<close> lists the
  directories on the way to a normalized absolute path, the path itself last.
\<close>

definition ancestors_of :: "string \<Rightarrow> string list" where
  "ancestors_of dir =
     map (\<lambda>k. CHR ''/'' # join_with ''/'' (take k (segments_of dir)))
       [1 ..< Suc (length (segments_of dir))]"

definition blocked_at :: "filesystem \<Rightarrow> string \<Rightarrow> string option" where
  "blocked_at fs p =
     (case List.find (\<lambda>a. fs a \<noteq> Some Dir) (butlast (ancestors_of p)) of
        None \<Rightarrow> None
      | Some a \<Rightarrow> Some (if fs a = None then ''ENOENT: no such file or directory''
                        else ''ENOTDIR: not a directory''))"

text \<open>
  \<^verbatim>\<open>app.post('/api/upload', upload.single('file'), handler)\<close>. The multer middleware runs
  first. Its disk storage is configured with \<^verbatim>\<open>destination = UPLOAD_DIR\<close> and
  \<^verbatim>\<open>filename = file.originalname\<close>: it opens \<^verbatim>\<open>path.join(UPLOAD_DIR, originalname)\<close>
  for writing and writes the received bytes there, replacing a regular file of that name,
  and hands the handler \<^verbatim>\<open>req.file = { originalname, path, size }\<close> (\<open>size_bytes\<close>
  here). When the path cannot be opened (it is a directory, or the upload directory is
  missing) multer passes the error on, the handler does not run, and Express answers with
  its error page and status 500; the file system is as it was. The request is a
  well-formed multipart form whose text fields are strings and whose only file part, if
  there is one, is the field \<^verbatim>\<open>file\<close>: for such a request multer sets \<^verbatim>\<open>req.body\<close>,
  of which the handler reads \<^verbatim>\<open>button_name\<close>, and \<^verbatim>\<open>req.file\<close>.
\<close>

record upload_file =
  originalname :: string
  size_bytes :: int

definition multer_path :: "string \<Rightarrow> upload_file \<Rightarrow> string" where
  "multer_path UPLOAD_DIR f = path_join UPLOAD_DIR (originalname f)"

definition multer_can_store :: "string \<Rightarrow> filesystem \<Rightarrow> upload_file \<Rightarrow> bool" where
  "multer_can_store UPLOAD_DIR fs f =
     (blocked_at fs (multer_path UPLOAD_DIR f) = None \<and> fs (multer_path UPLOAD_DIR f) \<noteq> Some Dir)"

definition multer_store :: "string \<Rightarrow> filesystem \<Rightarrow> upload_file option \<Rightarrow> string + filesystem" where
  "multer_store UPLOAD_DIR fs file =
     (case file of
        None \<Rightarrow> Inr fs
      | Some f \<Rightarrow>
          (case blocked_at fs (multer_path UPLOAD_DIR f) of
             Some e \<Rightarrow> Inl (e @ '', open'')
           | None \<Rightarrow>
               if fs (multer_path UPLOAD_DIR f) = Some Dir
               then Inl ''EISDIR: illegal operation on a directory, open''
               else Inr (fs (multer_path UPLOAD_DIR f \<mapsto> File (size_bytes f)))))"

text \<open>
  \<^verbatim>\<open>fs.mkdirSync(dir, { recursive: true })\<close> and \<^verbatim>\<open>fs.renameSync\<close>. The handler
  renames the regular file that multer stored; of a directory the model moves the node
  alone.
\<close>

definition mkdirSync_recursive :: "filesystem \<Rightarrow> string \<Rightarrow> string + filesystem" where
  "mkdirSync_recursive fs dir =
     (if \<exists>a \<in> set (ancestors_of dir). (case fs a of Some (File _) \<Rightarrow> True | _ \<Rightarrow> False) then
        Inl ''ENOTDIR: not a directory, mkdir''
      else Inr (\<lambda>p. if p \<in> set (ancestors_of dir) \<and> fs p = None then Some Dir else fs p))"

definition renameSync :: "filesystem \<Rightarrow> string \<Rightarrow> string \<Rightarrow> string + filesystem" where
  "renameSync fs src dst =
     (case fs src of
        None \<Rightarrow> Inl ''ENOENT: no such file or directory, rename''
      | Some n \<Rightarrow>
          (case blocked_at fs dst of
             Some e \<Rightarrow> Inl (e @ '', rename'')
           | None \<Rightarrow>
               if fs dst = Some Dir then Inl ''EISDIR: illegal operation on a directory, rename''
               else Inr (fs (src := None, dst \<mapsto> n))))"

text \<open>
  \<^verbatim>\<open>uploadCfg.allowed_extensions && !uploadCfg.allowed_extensions.includes(ext)\<close> and
  \<^verbatim>\<open>uploadCfg.max_file_size && req.file.size > uploadCfg.max_file_size\<close>: an absent
  allow-list and an absent or zero limit are falsy and check nothing.
\<close>

definition extension_refused :: "member \<Rightarrow> string \<Rightarrow> bool" where
  "extension_refused uploadCfg file_name =
     (case allowed_extensions uploadCfg of
        None \<Rightarrow> False
      | Some exts \<Rightarrow> extname file_name \<notin> set exts)"

definition size_refused :: "member \<Rightarrow> int \<Rightarrow> bool" where
  "size_refused uploadCfg n =
     (case max_file_size uploadCfg of
        None \<Rightarrow> False
      | Some limit \<Rightarrow> limit \<noteq> 0 \<and> n > limit)"

text \<open>
  The event published after an upload: \<^verbatim>\<open>mqttClient.publish('file/uploaded', ...)\<close> with
  a \<^verbatim>\<open>FileEvent\<close> of the relative file name, the size and the button name.
  \<^verbatim>\<open>path.relative\<close> is taken as a parameter.
\<close>

datatype publication = FileUploaded string int string

text \<open>
  The JSON response \<^verbatim>\<open>{ filename, success, error }\<close> of the handler, or the error page
  of Express with its status when multer failed.
\<close>

datatype upload_response =
    UploadResponse (resp_filename: string) (resp_success: bool) (resp_error: string)
  | ExpressError nat string

text \<open>
  The body of the \<^verbatim>\<open>try\<close> block of \<^verbatim>\<open>upload_server.js\<close>: \<open>Inl\<close> is a thrown error's
  message, \<open>Inr\<close> the file name of a successful upload; with it, the file system as the
  body leaves it and what it published.
\<close>

definition upload_body :: "config \<Rightarrow> string \<Rightarrow> (string \<Rightarrow> string \<Rightarrow> string) \<Rightarrow> bool
    \<Rightarrow> filesystem \<Rightarrow> string option \<Rightarrow> (upload_file \<times> string) option
    \<Rightarrow> (string + string) \<times> filesystem \<times> publication list" where
  "upload_body cfg dirname path_relative bus_up fs body_button_name req_file =
     (case resolve_upload_policy cfg body_button_name of
        None \<Rightarrow> (Inl ''No upload config found'', fs, [])
      | Some uploadCfg \<Rightarrow>
     (case req_file of
        None \<Rightarrow> (Inl ''No file uploaded'', fs, [])
      | Some (f, file_path) \<Rightarrow>
          if extension_refused uploadCfg (originalname f) then
            (case unlink fs file_path of
               Inl e \<Rightarrow> (Inl e, fs, [])
             | Inr fs' \<Rightarrow> (Inl ''File type not allowed'', fs', []))
          else if size_refused uploadCfg (size_bytes f) then
            (case unlink fs file_path of
               Inl e \<Rightarrow> (Inl e, fs, [])
             | Inr fs' \<Rightarrow> (Inl ''File size exceeds limit'', fs', []))
          else
            (case upload_directory uploadCfg of
               None \<Rightarrow> (Inl ''The \"path\" argument must be of type string. Received undefined'', fs, [])
             | Some dir \<Rightarrow>
                 (let uploadDir = resolveDir dirname dir in
                  case (if \<not> existsSync fs uploadDir then mkdirSync_recursive fs uploadDir else Inr fs) of
                    Inl e \<Rightarrow> (Inl e, fs, [])
                  | Inr fs1 \<Rightarrow>
                      (let destPath = path_join uploadDir (originalname f) in
                       case (if file_path \<noteq> destPath then renameSync fs1 file_path destPath else Inr fs1) of
                         Inl e \<Rightarrow> (Inl e, fs1, [])
                       | Inr fs2 \<Rightarrow>
                           (Inr (originalname f), fs2,
                            if bus_up then
                              [FileUploaded (path_relative uploadDir destPath) (size_bytes f)
                                 (case or_null body_button_name of None \<Rightarrow> [] | Some n \<Rightarrow> n)]
                            else []))))))"

text \<open>
  The whole request: multer's write, then, if it succeeds, the handler body and the JSON
  response of the \<^verbatim>\<open>try\<close> or of the \<^verbatim>\<open>catch\<close> (\<^verbatim>\<open>err.message || 'Upload failed'\<close>).
\<close>

definition upload_handler :: "config \<Rightarrow> string \<Rightarrow> string \<Rightarrow> (string \<Rightarrow> string \<Rightarrow> string) \<Rightarrow> bool
    \<Rightarrow> filesystem \<Rightarrow> string option \<Rightarrow> upload_file option
    \<Rightarrow> upload_response \<times> filesystem \<times> publication list" where
  "upload_handler cfg dirname UPLOAD_DIR path_relative bus_up fs body_button_name file =
     (case multer_store UPLOAD_DIR fs file of
        Inl e \<Rightarrow> (ExpressError 500 e, fs, [])
      | Inr fs1 \<Rightarrow>
          (case upload_body cfg dirname path_relative bus_up fs1
                  body_button_name (map_option (\<lambda>f. (f, multer_path UPLOAD_DIR f)) file) of
             (Inl msg, fs', published) \<Rightarrow>
               (UploadResponse [] False (message_or msg ''Upload failed''), fs', published)
           | (Inr name, fs', published) \<Rightarrow>
               (UploadResponse name True [], fs', published)))"

text \<open>
  The handler of \<^verbatim>\<open>upload_server.mjs\<close>: the same lines up to and including the two
  checks, then \<^verbatim>\<open>resolveDir(uploadCfg.upload_directory, UPLOAD_DIR)\<close>, which is
  \<^verbatim>\<open>UPLOAD_DIR\<close> when that is absolute and
  \<^verbatim>\<open>path.join(uploadCfg.upload_directory, UPLOAD_DIR)\<close> otherwise; it publishes
  nothing.
\<close>

definition upload_body_mjs :: "config \<Rightarrow> string \<Rightarrow> filesystem \<Rightarrow> string option
    \<Rightarrow> (upload_file \<times> string) option \<Rightarrow> (string + string) \<times> filesystem" where
  "upload_body_mjs cfg UPLOAD_DIR fs body_button_name req_file =
     (case resolve_upload_policy cfg body_button_name of
        None \<Rightarrow> (Inl ''No upload config found'', fs)
      | Some uploadCfg \<Rightarrow>
     (case req_file of
        None \<Rightarrow> (Inl ''No file uploaded'', fs)
      | Some (f, file_path) \<Rightarrow>
          if extension_refused uploadCfg (originalname f) then
            (case unlink fs file_path of
               Inl e \<Rightarrow> (Inl e, fs)
             | Inr fs' \<Rightarrow> (Inl ''File type not allowed'', fs'))
          else if size_refused uploadCfg (size_bytes f) then
            (case unlink fs file_path of
               Inl e \<Rightarrow> (Inl e, fs)
             | Inr fs' \<Rightarrow> (Inl ''File size exceeds limit'', fs'))
          else
            (case (if isAbsolute UPLOAD_DIR then Some UPLOAD_DIR
                   else map_option (\<lambda>dir. path_join dir UPLOAD_DIR) (upload_directory uploadCfg)) of
               None \<Rightarrow> (Inl ''The \"path\" argument must be of type string. Received undefined'', fs)
             | Some uploadDir \<Rightarrow>
                 (case (if \<not> existsSync fs uploadDir then mkdirSync_recursive fs uploadDir else Inr fs) of
                    Inl e \<Rightarrow> (Inl e, fs)
                  | Inr fs1 \<Rightarrow>
                      (let destPath = path_join uploadDir (originalname f) in
                       case (if file_path \<noteq> destPath then renameSync fs1 file_path destPath else Inr fs1) of
                         Inl e \<Rightarrow> (Inl e, fs1)
                       | Inr fs2 \<Rightarrow> (Inr (originalname f), fs2))))))"

definition upload_handler_mjs :: "config \<Rightarrow> string \<Rightarrow> filesystem \<Rightarrow> string option
    \<Rightarrow> upload_file option \<Rightarrow> upload_response \<times> filesystem" where
  "upload_handler_mjs cfg UPLOAD_DIR fs body_button_name file =
     (case multer_store UPLOAD_DIR fs file of
        Inl e \<Rightarrow> (ExpressError 500 e, fs)
      | Inr fs1 \<Rightarrow>
          (case upload_body_mjs cfg UPLOAD_DIR fs1 body_button_name
                  (map_option (\<lambda>f. (f, multer_path UPLOAD_DIR f)) file) of
             (Inl msg, fs') \<Rightarrow> (UploadResponse [] False (message_or msg ''Upload failed''), fs')
           | (Inr name, fs') \<Rightarrow> (UploadResponse name True [], fs')))"

section \<open>Sensor telemetry\<close>

text \<open>
  What a decoder returns and what the cache holds are JavaScript values. An object is
  the list of its enumerable properties in enumeration order; it is plain data, whose
  prototype is \<^verbatim>\<open>Object.prototype\<close>. \<open>JBuiltin\<close> is a value that is not plain data, a
  built-in function or prototype object, by name: it arises only where the code reads a
  property that an array inherits.
\<close>

datatype jsval =
    JUndefined
  | JNull
  | JBool bool
  | JNum real
  | JStr string
  | JObj "(string \<times> jsval) list"
  | JBuiltin string

text \<open>Property access \<^verbatim>\<open>obj.key\<close>, truthiness, and \<^verbatim>\<open>a || b\<close>.\<close>

definition js_get :: "jsval \<Rightarrow> string \<Rightarrow> jsval" where
  "js_get v k =
     (case v of
        JObj props \<Rightarrow> (case map_of props k of None \<Rightarrow> JUndefined | Some x \<Rightarrow> x)
      | _ \<Rightarrow> JUndefined)"

definition js_truthy :: "jsval \<Rightarrow> bool" where
  "js_truthy v =
     (case v of
        JUndefined \<Rightarrow> False
      | JNull \<Rightarrow> False
      | JBool b \<Rightarrow> b
      | JNum n \<Rightarrow> n \<noteq> 0
      | JStr s \<Rightarrow> s \<noteq> []
      | JObj _ \<Rightarrow> True
      | JBuiltin _ \<Rightarrow> True)"

definition js_or :: "jsval \<Rightarrow> jsval \<Rightarrow> jsval" where
  "js_or a b = (if js_truthy a then a else b)"

text \<open>
  Reading a property of \<^verbatim>\<open>undefined\<close> or \<^verbatim>\<open>null\<close> throws a \<^verbatim>\<open>TypeError\<close>; reading
  one of any other value does not.
\<close>

definition nullish :: "jsval \<Rightarrow> bool" where
  "nullish v = (v = JUndefined \<or> v = JNull)"

text \<open>\<^verbatim>\<open>typeof v === 'number'\<close>.\<close>

definition is_number :: "jsval \<Rightarrow> bool" where
  "is_number v = (case v of JNum _ \<Rightarrow> True | _ \<Rightarrow> False)"

text \<open>
  A message is a \<^verbatim>\<open>Buffer\<close> (a byte string). A decoder of \<^verbatim>\<open>sensor_pb.js\<close> returns
  the decoded object or throws; \<open>Inl\<close> is the thrown error's \<^verbatim>\<open>message\<close>. The decoders,
  \<^verbatim>\<open>Buffer.toString('base64')\<close>, the clock, number formatting and the built-in
  prototypes are not code of this repository: they are the fields of \<open>platform\<close>.
  \<open>toFixed6 n\<close> is \<^verbatim>\<open>n.toFixed(6)\<close> of a number \<open>n\<close>. \<open>iso_of v\<close> is
  \<^verbatim>\<open>new Date(Number(v)).toISOString()\<close>: the string, or \<open>Inl\<close> of the class of the error
  it throws (a \<^verbatim>\<open>RangeError\<close> when \<^verbatim>\<open>Number(v)\<close> is not a valid time value).
  \<open>array_inherited k\<close> is what an array yields for a property name \<open>k\<close> that is neither
  one of its indices nor \<^verbatim>\<open>length\<close>: the built-in it inherits under that name, and
  \<^verbatim>\<open>undefined\<close> when it inherits none.
\<close>

type_synonym buffer = string

type_synonym decoder = "buffer \<Rightarrow> string + jsval"

record platform =
  decodeTemperatureData :: decoder
  decodeCompassData :: decoder
  decodeGpsPositionData :: decoder
  decodeStatusMessage :: decoder
  toBase64 :: "buffer \<Rightarrow> string"
  date_now :: real
  iso_now :: string
  iso_of :: "jsval \<Rightarrow> string + string"
  toFixed6 :: "real \<Rightarrow> string"
  array_inherited :: "string \<Rightarrow> jsval"

subsection \<open>Topic registry\<close>

text \<open>
  The loop that fills \<^verbatim>\<open>sensorTopics\<close> and \<^verbatim>\<open>topicDecoderMap\<close> at startup. A topic
  other than the four known ones is registered with \<^verbatim>\<open>null\<close> (\<open>None\<close>).
\<close>

definition is_sensor :: "member \<Rightarrow> bool" where
  "is_sensor m = (mtype m = ''sensor'' \<and> truthy (topic m))"

definition member_topics :: "member list \<Rightarrow> string list" where
  "member_topics ms = map (\<lambda>m. show_field (topic m)) (filter is_sensor ms)"

definition sensorTopics :: "config \<Rightarrow> string list" where
  "sensorTopics cfg = concat (map (\<lambda>t. member_topics (members t)) (tabs cfg))"

definition decoder_for :: "platform \<Rightarrow> string \<Rightarrow> decoder option" where
  "decoder_for plat t =
     (if t = ''sensor/temperature'' then Some (decodeTemperatureData plat)
      else if t = ''sensor/compass'' then Some (decodeCompassData plat)
      else if t = ''sensor/gps'' then Some (decodeGpsPositionData plat)
      else if t = ''sensor/status'' then Some (decodeStatusMessage plat)
      else None)"

definition topicDecoderMap :: "config \<Rightarrow> platform \<Rightarrow> string \<Rightarrow> decoder option option" where
  "topicDecoderMap cfg plat t =
     (if t \<in> set (sensorTopics cfg) then Some (decoder_for plat t) else None)"

subsection \<open>Formatting\<close>

text \<open>\<^verbatim>\<open>getUnitForTopic\<close> and \<^verbatim>\<open>formatSensorData\<close> of \<^verbatim>\<open>upload_server.js\<close>.\<close>

definition getUnitForTopic :: "config \<Rightarrow> string \<Rightarrow> string" where
  "getUnitForTopic cfg t =
     (case find_in_tabs (\<lambda>m. mtype m = ''sensor'' \<and> topic m = Some t) (tabs cfg) of
        Some m \<Rightarrow> (case unit m of None \<Rightarrow> [] | Some u \<Rightarrow> u)
      | None \<Rightarrow> [])"

fun first_number :: "(string \<times> jsval) list \<Rightarrow> jsval option" where
  "first_number [] = None"
| "first_number ((k, v) # props) =
     (case v of JNum n \<Rightarrow> Some (JNum n) | _ \<Rightarrow> first_number props)"

definition formatSensorData :: "config \<Rightarrow> platform \<Rightarrow> string \<Rightarrow> jsval \<Rightarrow> jsval" where
  "formatSensorData cfg plat t parsed =
     (let v = (case parsed of
                 JObj props \<Rightarrow> (case first_number props of Some n \<Rightarrow> n | None \<Rightarrow> parsed)
               | _ \<Rightarrow> parsed)
      in JObj [(''value'', v),
               (''unit'', JStr (getUnitForTopic cfg t)),
               (''timestamp'', JNum (date_now plat))])"

text \<open>
  \<^verbatim>\<open>formatSensorData\<close> of \<^verbatim>\<open>upload_server.mjs\<close>, which does not read the configuration.
  It can throw, and nothing in it or in its caller catches: \<open>Inl\<close> is the class of the
  thrown error. The default unit of a temperature is the two bytes of the degree sign and
  \<^verbatim>\<open>C\<close>.
\<close>

definition degrees_celsius :: string where
  "degrees_celsius = [CHR 0xC2, CHR 0xB0, CHR ''C'']"

text \<open>
  \<^verbatim>\<open>const statusMap = ['UNKNOWN', 'ONLINE', 'OFFLINE', 'ERROR']\<close> read at a property
  name: its four indices, its \<^verbatim>\<open>length\<close>, and otherwise what an array inherits.
\<close>

definition statusMap_at :: "platform \<Rightarrow> string \<Rightarrow> jsval" where
  "statusMap_at plat k =
     (if k = ''0'' then JStr ''UNKNOWN''
      else if k = ''1'' then JStr ''ONLINE''
      else if k = ''2'' then JStr ''OFFLINE''
      else if k = ''3'' then JStr ''ERROR''
      else if k = ''length'' then JNum 4
      else array_inherited plat k)"

text \<open>
  \<^verbatim>\<open>statusMap[parsed.status]\<close>. The value is converted to a property name: a string is
  its own name; of the numbers only 0, 1, 2 and 3 print as an index, and no other prints
  as a name an array has; \<^verbatim>\<open>null\<close>, \<^verbatim>\<open>true\<close> and \<^verbatim>\<open>false\<close> print as words an array
  does not have; an object prints through its \<^verbatim>\<open>toString\<close>, as
  \<^verbatim>\<open>[object Object]\<close>, which an array does not have either, unless it has a
  \<^verbatim>\<open>toString\<close> property of its own, which as plain data cannot be called, and then
  the conversion throws a \<^verbatim>\<open>TypeError\<close>.
\<close>

definition statusMap_lookup :: "platform \<Rightarrow> jsval \<Rightarrow> string + jsval" where
  "statusMap_lookup plat v =
     (case v of
        JNum n \<Rightarrow> Inr (if n = 0 then JStr ''UNKNOWN''
                        else if n = 1 then JStr ''ONLINE''
                        else if n = 2 then JStr ''OFFLINE''
                        else if n = 3 then JStr ''ERROR''
                        else JUndefined)
      | JStr k \<Rightarrow> Inr (statusMap_at plat k)
      | JObj props \<Rightarrow> (if map_of props ''toString'' = None then Inr JUndefined
                         else Inl ''TypeError'')
      | _ \<Rightarrow> Inr JUndefined)"

text \<open>\<^verbatim>\<open>statusMap[parsed.status] || 'UNKNOWN'\<close>.\<close>

definition status_label :: "platform \<Rightarrow> jsval \<Rightarrow> string + jsval" where
  "status_label plat v =
     (case statusMap_lookup plat v of
        Inl e \<Rightarrow> Inl e
      | Inr x \<Rightarrow> Inr (js_or x (JStr ''UNKNOWN'')))"

text \<open>
  \<^verbatim>\<open>parsed.timestamp ? new Date(Number(parsed.timestamp)).toISOString()
  : new Date().toISOString()\<close>.
\<close>

definition status_timestamp :: "platform \<Rightarrow> jsval \<Rightarrow> string + string" where
  "status_timestamp plat ts = (if js_truthy ts then iso_of plat ts else Inr (iso_now plat))"

text \<open>
  \<^verbatim>\<open>`${parsed.position.latitude.toFixed(6)}, ${parsed.position.longitude.toFixed(6)}`\<close>:
  \<^verbatim>\<open>toFixed\<close> exists on numbers only, so the call throws a \<^verbatim>\<open>TypeError\<close> for a
  latitude or longitude that is missing or is not a number.
\<close>

definition gps_value :: "platform \<Rightarrow> jsval \<Rightarrow> string + string" where
  "gps_value plat position =
     (case js_get position ''latitude'' of
        JNum la \<Rightarrow>
          (case js_get position ''longitude'' of
             JNum lo \<Rightarrow> Inr (toFixed6 plat la @ '', '' @ toFixed6 plat lo)
           | _ \<Rightarrow> Inl ''TypeError'')
      | _ \<Rightarrow> Inl ''TypeError'')"

text \<open>
  Each of the four conditions compares the topic first and reads a property of
  \<^verbatim>\<open>parsed\<close> only when the topic matches: for one of the four topics a \<^verbatim>\<open>parsed\<close> that
  is \<^verbatim>\<open>undefined\<close> or \<^verbatim>\<open>null\<close> throws, for any other topic it is returned. The
  properties of the status reading are evaluated in the order they are written.
\<close>

definition formatSensorData_mjs :: "platform \<Rightarrow> string \<Rightarrow> jsval \<Rightarrow> string + jsval" where
  "formatSensorData_mjs plat t parsed =
     (if t \<in> set [''sensor/gps'', ''sensor/temperature'', ''sensor/compass'', ''sensor/status'']
         \<and> nullish parsed then
        Inl ''TypeError''
      else if t = ''sensor/gps'' \<and> js_truthy (js_get parsed ''position'') then
        (case gps_value plat (js_get parsed ''position'') of
           Inl e \<Rightarrow> Inl e
         | Inr v \<Rightarrow>
             Inr (JObj [(''value'', JStr v),
                        (''unit'', js_or (js_get parsed ''unit'') (JStr ''decimal_degrees'')),
                        (''timestamp'', JStr (iso_now plat)),
                        (''description'', JStr ''GPS Location'')]))
      else if t = ''sensor/temperature'' \<and> js_get parsed ''temperature'' \<noteq> JUndefined then
        Inr (JObj [(''value'', js_get parsed ''temperature''),
                   (''unit'', js_or (js_get parsed ''unit'') (JStr degrees_celsius)),
                   (''timestamp'', JStr (iso_now plat)),
                   (''description'', JStr ''CPU Temperature'')])
      else if t = ''sensor/compass'' \<and> js_get parsed ''heading'' \<noteq> JUndefined then
        Inr (JObj [(''value'', js_get parsed ''heading''),
                   (''unit'', js_or (js_get parsed ''unit'') (JStr ''degrees'')),
                   (''timestamp'', JStr (iso_now plat)),
                   (''description'', JStr ''Compass Heading'')])
      else if t = ''sensor/status'' \<and> js_get parsed ''status'' \<noteq> JUndefined then
        (case status_label plat (js_get parsed ''status'') of
           Inl e \<Rightarrow> Inl e
         | Inr label \<Rightarrow>
             (case status_timestamp plat (js_get parsed ''timestamp'') of
                Inl e \<Rightarrow> Inl e
              | Inr ts \<Rightarrow>
                  Inr (JObj [(''value'', label),
                             (''device_id'', js_or (js_get parsed ''device_id'') (JStr [])),
                             (''message'', js_or (js_get parsed ''message'') (JStr [])),
                             (''timestamp'', JStr ts),
                             (''description'', JStr ''Sensor Status'')])))
      else Inr parsed)"

subsection \<open>Cache, broadcast and the bus handlers\<close>

text \<open>\<^verbatim>\<open>topic.split('/')[1]\<close>, which is \<^verbatim>\<open>undefined\<close> for a topic without a slash.\<close>

definition second_segment :: "string \<Rightarrow> string option" where
  "second_segment t = (case split_on CHR ''/'' t of a # b # _ \<Rightarrow> Some b | _ \<Rightarrow> None)"

text \<open>\<^verbatim>\<open>let key = topic.split('/')[1] || topic\<close>.\<close>

definition sensor_key :: "string \<Rightarrow> string" where
  "sensor_key t = (if truthy (second_segment t) then show_field (second_segment t) else t)"

text \<open>
  \<^verbatim>\<open>latestSensorData[key] = formatted\<close> on the object \<^verbatim>\<open>latestSensorData = {}\<close>. The
  cache is the object's own properties, which is what \<^verbatim>\<open>/api/sensors\<close> and the
  \<^verbatim>\<open>init\<close> message serialize. An assignment to the key \<^verbatim>\<open>__proto__\<close> reaches the
  setter the object inherits: it stores no property (given an object, it replaces the
  prototype). The handlers pass an object there, so the setter stays inherited.
\<close>

definition updateLatestSensorData :: "(string \<rightharpoonup> jsval) \<Rightarrow> string \<Rightarrow> jsval \<Rightarrow> (string \<rightharpoonup> jsval)" where
  "updateLatestSensorData latest t formatted =
     (if sensor_key t = ''__proto__'' then latest else latest (sensor_key t \<mapsto> formatted))"

text \<open>
  A WebSocket client with its \<^verbatim>\<open>readyState\<close> and what has been sent to it;
  \<^verbatim>\<open>broadcastWS\<close> sends to the clients whose state is 1 (open).
\<close>

datatype ws_event = SensorUpdate "string option" jsval

record ws_client =
  readyState :: nat
  sent :: "ws_event list"

definition broadcastWS :: "ws_client list \<Rightarrow> ws_event \<Rightarrow> ws_client list" where
  "broadcastWS clients ev =
     map (\<lambda>c. if readyState c = 1 then c \<lparr> sent := sent c @ [ev] \<rparr> else c) clients"

text \<open>
  The state the bus handlers act on: the cache, the WebSocket clients, and the MQTT
  client's connection: whether it is up and which topics it has subscribed since it came
  up. A \<^verbatim>\<open>subscribe\<close> call is taken to succeed (the handler only logs a failure), and a
  lost connection to lose the subscriptions.
\<close>

record server_state =
  latestSensorData :: "string \<rightharpoonup> jsval"
  clients :: "ws_client list"
  mqtt_connected :: bool
  subscriptions :: "string set"

text \<open>The raw representation of a message whose decoder threw.\<close>

definition raw_with_error :: "platform \<Rightarrow> buffer \<Rightarrow> string \<Rightarrow> jsval" where
  "raw_with_error plat message err =
     JObj [(''raw'', JStr (toBase64 plat message)), (''error'', JStr err)]"

definition parse_message :: "config \<Rightarrow> platform \<Rightarrow> string \<Rightarrow> buffer \<Rightarrow> jsval" where
  "parse_message cfg plat t message =
     (case topicDecoderMap cfg plat t of
        Some (Some decode) \<Rightarrow>
          (case decode message of
             Inr parsed \<Rightarrow> parsed
           | Inl err \<Rightarrow> raw_with_error plat message err)
      | _ \<Rightarrow> JObj [(''raw'', JStr (toBase64 plat message))])"

text \<open>
  \<^verbatim>\<open>mqttClient.on('message', ...)\<close> for a formatter \<open>format\<close> that returns, as
  \<^verbatim>\<open>formatSensorData\<close> of \<^verbatim>\<open>upload_server.js\<close> always does.
\<close>

definition on_message :: "(string \<Rightarrow> jsval \<Rightarrow> jsval) \<Rightarrow> config \<Rightarrow> platform \<Rightarrow> server_state
    \<Rightarrow> string \<Rightarrow> buffer \<Rightarrow> server_state" where
  "on_message format cfg plat s t message =
     (if t \<in> set (sensorTopics cfg) then
        (let formatted = format t (parse_message cfg plat t message)
         in s \<lparr> latestSensorData := updateLatestSensorData (latestSensorData s) t formatted,
                clients := broadcastWS (clients s) (SensorUpdate (second_segment t) formatted) \<rparr>)
      else s)"

text \<open>
  The same handler in \<^verbatim>\<open>upload_server.mjs\<close>, whose formatter can throw: the call to
  \<^verbatim>\<open>formatSensorData\<close> is outside the \<^verbatim>\<open>try\<close>, so the handler throws what the
  formatter throws (\<open>Inl\<close>) before it stores or sends anything.
\<close>

definition on_message_mjs :: "config \<Rightarrow> platform \<Rightarrow> server_state \<Rightarrow> string \<Rightarrow> buffer
    \<Rightarrow> string + server_state" where
  "on_message_mjs cfg plat s t message =
     (if t \<in> set (sensorTopics cfg) then
        (case formatSensorData_mjs plat t (parse_message cfg plat t message) of
           Inl e \<Rightarrow> Inl e
         | Inr formatted \<Rightarrow>
             Inr (s \<lparr> latestSensorData := updateLatestSensorData (latestSensorData s) t formatted,
                      clients := broadcastWS (clients s) (SensorUpdate (second_segment t) formatted) \<rparr>))
      else Inr s)"

text \<open>
  \<^verbatim>\<open>mqttClient.on('connect', ...)\<close> subscribes to each topic of \<^verbatim>\<open>sensorTopics\<close>; it runs
  on the first connect and on every reconnect.
\<close>

definition on_connect :: "config \<Rightarrow> server_state \<Rightarrow> server_state" where
  "on_connect cfg s =
     s \<lparr> mqtt_connected := True, subscriptions := foldl (\<lambda>subs t. insert t subs) (subscriptions s) (sensorTopics cfg) \<rparr>"

definition on_close :: "server_state \<Rightarrow> server_state" where
  "on_close s = s \<lparr> mqtt_connected := False, subscriptions := {} \<rparr>"

datatype bus_event = Connect | Close | Message string buffer

fun bus_step :: "(string \<Rightarrow> jsval \<Rightarrow> jsval) \<Rightarrow> config \<Rightarrow> platform \<Rightarrow> server_state \<Rightarrow> bus_event
    \<Rightarrow> server_state" where
  "bus_step format cfg plat s Connect = on_connect cfg s"
| "bus_step format cfg plat s Close = on_close s"
| "bus_step format cfg plat s (Message t message) = on_message format cfg plat s t message"

definition bus_run :: "(string \<Rightarrow> jsval \<Rightarrow> jsval) \<Rightarrow> config \<Rightarrow> platform \<Rightarrow> server_state
    \<Rightarrow> bus_event list \<Rightarrow> server_state" where
  "bus_run format cfg plat s events = foldl (bus_step format cfg plat) s events"

definition initial_state :: server_state where
  "initial_state = \<lparr> latestSensorData = Map.empty, clients = [], mqtt_connected = False,
                      subscriptions = {} \<rparr>"

text \<open>
  The subscription invariant of the bus handlers: while the connection is up the client
  is subscribed to the topics of \<^verbatim>\<open>sensorTopics\<close>, and to nothing while it is down.
\<close>

definition sub_inv :: "config \<Rightarrow> server_state \<Rightarrow> bool" where
  "sub_inv cfg s = (subscriptions s = (if mqtt_connected s then set (sensorTopics cfg) else {}))"

section \<open>Action endpoint\<close>

text \<open>
  \<^verbatim>\<open>app.post('/api/action', ...)\<close>. \<^verbatim>\<open>mqttClient.reconnect()\<close> and
  \<^verbatim>\<open>mqttClient.publish()\<close> belong to the MQTT library. A call either throws (\<open>Some\<close> of
  the message) or returns; \<open>reconnect\<close> returns before the connection attempt has an
  outcome, and \<open>reconnect_succeeds\<close> says how the attempt ends later on.
\<close>

record mqtt_client =
  client_connected :: bool
  reconnect_throws :: "string option"
  reconnect_succeeds :: bool
  publish_throws :: "string option"

datatype mqtt_call = Reconnect | Publish string jsval

datatype action_response = ActionResponse (ack: string) (action_success: bool) (action_error: string)

text \<open>The button lookup of the handler: the first button whose name is the action.\<close>

definition find_button :: "config \<Rightarrow> string \<Rightarrow> member option" where
  "find_button cfg action =
     find_in_tabs (\<lambda>m. mtype m = ''button'' \<and> button_name m = Some action) (tabs cfg)"

text \<open>The \<^verbatim>\<open>try\<close> block: the thrown message, if any, and the calls made on the client.\<close>

definition action_body :: "config \<Rightarrow> mqtt_client \<Rightarrow> string option \<Rightarrow> jsval
    \<Rightarrow> string option \<times> mqtt_call list" where
  "action_body cfg client action v =
     (if \<not> truthy action then (Some ''No action provided in request'', [])
      else
        (case find_button cfg (show_field action) of
           None \<Rightarrow> (Some ''Action not found in config'', [])
         | Some buttonConfig \<Rightarrow>
             if \<not> truthy (publish_topic buttonConfig) then
               (Some ''No publish_topic found for action'', [])
             else
               (let t = show_field (publish_topic buttonConfig);
                    payload = (if v \<noteq> JUndefined \<and> v \<noteq> JNull then v else JStr []);
                    before = (if \<not> client_connected client then [Reconnect] else [])
                in if \<not> client_connected client \<and> reconnect_throws client \<noteq> None then
                     (reconnect_throws client, before)
                   else (publish_throws client, before @ [Publish t payload]))))"

definition action_handler :: "config \<Rightarrow> mqtt_client \<Rightarrow> string option \<Rightarrow> jsval
    \<Rightarrow> action_response \<times> mqtt_call list" where
  "action_handler cfg client action v =
     (case action_body cfg client action v of
        (Some msg, calls) \<Rightarrow> (ActionResponse [] False (message_or msg ''Action failed''), calls)
      | (None, calls) \<Rightarrow> (ActionResponse ''Action sent'' True [], calls))"

subsection \<open>Example configurations\<close>

definition blank :: member where
  "blank = \<lparr> mtype = '''', button_name = None, topic = None, unit = None,
              publish_topic = None, upload_directory = None, root_directory = None,
              allowed_extensions = None, max_file_size = None \<rparr>"

definition upload_a :: member where
  "upload_a = blank \<lparr> mtype := ''upload'', button_name := Some ''a'',
       upload_directory := Some ''uploads'', allowed_extensions := Some [''.txt'', ''.csv''],
       max_file_size := Some 10 \<rparr>"

definition upload_b :: member where
  "upload_b = blank \<lparr> mtype := ''upload'', button_name := Some ''b'',
       upload_directory := Some ''logs'', allowed_extensions := Some [''.log''] \<rparr>"

definition two_uploads :: config where
  "two_uploads = \<lparr> tabs = [\<lparr> tab_id = ''files'', members = [upload_a],
                              tab_upload_directory = None, tab_download_root = None \<rparr>,
                            \<lparr> tab_id = ''logs'', members = [upload_b],
                              tab_upload_directory = None, tab_download_root = None \<rparr>],
                    broker_host = ''localhost'', broker_port = 1883 \<rparr>"

definition button_of :: "string \<Rightarrow> string \<Rightarrow> member" where
  "button_of n t = blank \<lparr> mtype := ''button'', button_name := Some n, publish_topic := Some t \<rparr>"

definition config_of :: "member list \<Rightarrow> config" where
  "config_of ms = \<lparr> tabs = [\<lparr> tab_id = ''main'', members = ms,
                               tab_upload_directory = None, tab_download_root = None \<rparr>],
                     broker_host = ''localhost'', broker_port = 1883 \<rparr>"

text \<open>Two members named \<^verbatim>\<open>logs\<close> in different tabs.\<close>

definition two_logs :: config where
  "two_logs = \<lparr> tabs = [\<lparr> tab_id = ''files'', members = [upload_a \<lparr> button_name := Some ''logs'' \<rparr>],
                           tab_upload_directory = None, tab_download_root = None \<rparr>,
                         \<lparr> tab_id = ''logs'', members = [upload_b \<lparr> button_name := Some ''logs'' \<rparr>],
                           tab_upload_directory = None, tab_download_root = None \<rparr>],
                 broker_host = ''localhost'', broker_port = 1883 \<rparr>"

text \<open>Two buttons whose \<^verbatim>\<open>button_name\<close> is the empty string.\<close>

definition empty_names :: config where
  "empty_names = config_of [button_of [] ''cmd/one'', button_of [] ''cmd/two'']"

text \<open>An Upload member without \<^verbatim>\<open>upload_directory\<close>, followed by two buttons named \<^verbatim>\<open>logs\<close>.\<close>

definition upload_then_logs :: config where
  "upload_then_logs =
     config_of [blank \<lparr> mtype := ''upload'', button_name := Some ''u'',
                        allowed_extensions := Some [''.txt''] \<rparr>,
                button_of ''logs'' ''cmd/one'', button_of ''logs'' ''cmd/two'']"

definition download_dl :: member where
  "download_dl = blank \<lparr> mtype := ''download'', button_name := Some ''dl'',
       root_directory := Some ''downloads'', allowed_extensions := Some [''.txt'', ''.log''] \<rparr>"

definition dl_config :: config where
  "dl_config = config_of [download_dl]"

text \<open>The same Download member in a tab \<^verbatim>\<open>files\<close> that declares a download root of its own.\<close>

definition files_tab_config :: config where
  "files_tab_config =
     \<lparr> tabs = [\<lparr> tab_id = ''files'', members = [download_dl],
                  tab_upload_directory = None, tab_download_root = Some ''downloads'' \<rparr>],
       broker_host = ''localhost'', broker_port = 1883 \<rparr>"

text \<open>A download root with one subdirectory and one file, and nothing else on the disk.\<close>

definition readdir_example :: "string \<Rightarrow> readdir_result" where
  "readdir_example p =
     (if p = ''/srv/app/downloads'' then ReaddirEntries [DirectoryEntry ''logs'', FileEntry ''a.txt'']
      else ReaddirError)"

definition fs_example :: filesystem where
  "fs_example p =
     (if p = ''/srv/app/uploads'' then Some Dir
      else if p = ''/srv/app/config/config.json'' then Some (File 120)
      else if p = ''/srv/app/uploads/data.txt'' then Some (File 5)
      else None)"

text \<open>
  A disk with the application directory, its upload directory, one uploaded file and one
  subdirectory of the upload directory.
\<close>

definition disk_example :: filesystem where
  "disk_example p =
     (if p \<in> set [''/srv'', ''/srv/app'', ''/srv/app/uploads'', ''/srv/app/uploads/inbox'']
      then Some Dir
      else if p = ''/srv/app/uploads/data.txt'' then Some (File 5)
      else None)"

text \<open>\<^verbatim>\<open>path.relative(from, to)\<close> where \<open>to\<close> lies directly under \<open>from\<close>.\<close>

definition relative_example :: "string \<Rightarrow> string \<Rightarrow> string" where
  "relative_example from to = drop (Suc (length from)) to"

text \<open>An upload policy that declares a size limit of zero.\<close>

definition zero_limit :: config where
  "zero_limit = config_of [upload_a \<lparr> max_file_size := Some 0 \<rparr>]"

text \<open>Sensors: one with a declared unit, one without, one on a three-segment topic.\<close>

definition sensor_of :: "string \<Rightarrow> string option \<Rightarrow> member" where
  "sensor_of t u = blank \<lparr> mtype := ''sensor'', topic := Some t, unit := u \<rparr>"

definition sensors_config :: config where
  "sensors_config =
     \<lparr> tabs = [\<lparr> tab_id = ''sensors'',
                  members = [sensor_of ''sensor/temperature'' (Some ''F''),
                             sensor_of ''plant/line1/temperature'' None],
                  tab_upload_directory = None, tab_download_root = None \<rparr>,
               \<lparr> tab_id = ''controls'',
                  members = [button_of ''restart'' ''cmd/restart'', sensor_of ''sensor/compass'' None],
                  tab_upload_directory = None, tab_download_root = None \<rparr>],
       broker_host = ''localhost'', broker_port = 1883 \<rparr>"

definition temperature_without_unit :: config where
  "temperature_without_unit = config_of [sensor_of ''sensor/temperature'' None]"

text \<open>A GPS sensor, and a sensor whose topic has the second segment \<^verbatim>\<open>__proto__\<close>.\<close>

definition gps_config :: config where
  "gps_config = config_of [sensor_of ''sensor/gps'' None, sensor_of ''x/__proto__'' None]"

text \<open>
  A platform for the examples: the temperature decoder accepts the message \<^verbatim>\<open>ok\<close> and
  throws on anything else; the GPS decoder accepts \<^verbatim>\<open>fix\<close>, and \<^verbatim>\<open>nofix\<close> as a
  position without coordinates; \<^verbatim>\<open>bad\<close> is \<^verbatim>\<open>YmFk\<close> in base64.
\<close>

definition plat_example :: platform where
  "plat_example =
     \<lparr> decodeTemperatureData =
         (\<lambda>b. if b = ''ok'' then Inr (JObj [(''temperature'', JNum 21.5)])
              else Inl ''index out of range''),
       decodeCompassData = (\<lambda>b. Inl ''index out of range''),
       decodeGpsPositionData =
         (\<lambda>b. if b = ''fix'' then
                Inr (JObj [(''position'', JObj [(''latitude'', JNum 32), (''longitude'', JNum 35)])])
              else if b = ''nofix'' then Inr (JObj [(''position'', JObj [])])
              else Inl ''index out of range''),
       decodeStatusMessage = (\<lambda>b. Inl ''index out of range''),
       toBase64 = (\<lambda>b. if b = ''bad'' then ''YmFk'' else []),
       date_now = 1700000000000,
       iso_now = ''2023-11-14T22:13:20.000Z'',
       iso_of = (\<lambda>v. if v = JNum 1700000000000 then Inr ''2023-11-14T22:13:20.000Z''
                       else Inl ''RangeError''),
       toFixed6 = (\<lambda>n. if n = 32 then ''32.000000'' else if n = 35 then ''35.000000''
                         else ''0.000000''),
       array_inherited = (\<lambda>k. if k \<in> set [''push'', ''pop'', ''map'', ''constructor'', ''toString'']
                               then JBuiltin k else JUndefined) \<rparr>"

definition two_clients :: server_state where
  "two_clients = initial_state \<lparr> clients := [\<lparr> readyState = 1, sent = [] \<rparr>,
                                                \<lparr> readyState = 3, sent = [] \<rparr>] \<rparr>"

text \<open>A client that is disconnected and whose reconnect attempt will fail.\<close>

definition broker_down :: mqtt_client where
  "broker_down = \<lparr> client_connected = False, reconnect_throws = None,
                    reconnect_succeeds = False, publish_throws = None \<rparr>"

section \<open>Upload policy resolution\<close>

lemma find_member_eq_find: "find_member p ms = List.find p ms"
  by (induction ms) auto

lemma find_append:
  "List.find p (xs @ ys) = (case List.find p xs of Some x \<Rightarrow> Some x | None \<Rightarrow> List.find p ys)"
  by (induction xs) auto

lemma find_SomeD: "List.find p xs = Some x \<Longrightarrow> x \<in> set xs \<and> p x"
  by (induction xs) (auto split: if_splits)

lemma find_in_tabs_eq_find: "find_in_tabs p ts = List.find p (concat (map members ts))"
  by (induction ts) (auto simp: find_member_eq_find find_append split: option.splits)

lemma getUploadConfig_find:
  "getUploadConfig cfg bn = List.find (policy_match ''upload'' bn) (all_members cfg)"
  by (simp add: getUploadConfig_def all_members_def find_in_tabs_eq_find)

lemma getDownloadConfig_find:
  "getDownloadConfig cfg bn = List.find (policy_match ''download'' bn) (all_members cfg)"
  by (simp add: getDownloadConfig_def all_members_def find_in_tabs_eq_find)

lemma multer_store_ok:
  "multer_can_store UPLOAD_DIR fs f \<Longrightarrow>
     multer_store UPLOAD_DIR fs (Some f) = Inr (fs (multer_path UPLOAD_DIR f \<mapsto> File (size_bytes f)))"
  by (simp add: multer_can_store_def multer_store_def)

lemma multer_store_fails:
  "\<not> multer_can_store UPLOAD_DIR fs f \<Longrightarrow> \<exists>e. multer_store UPLOAD_DIR fs (Some f) = Inl e"
  by (auto simp: multer_can_store_def multer_store_def split: option.splits)

lemma blocked_at_msg: "blocked_at fs p = Some e \<Longrightarrow> e @ t \<noteq> ''No upload config found''"
  by (auto simp: blocked_at_def split: option.splits if_splits)

lemma unlink_msg: "unlink fs p = Inl e \<Longrightarrow> e \<noteq> ''No upload config found''"
  by (auto simp: unlink_def split: option.splits node.splits)

lemma mkdirSync_msg: "mkdirSync_recursive fs p = Inl e \<Longrightarrow> e \<noteq> ''No upload config found''"
  by (auto simp: mkdirSync_recursive_def split: if_splits)

lemma renameSync_msg: "renameSync fs p q = Inl e \<Longrightarrow> e \<noteq> ''No upload config found''"
  by (auto simp: renameSync_def dest: blocked_at_msg split: option.splits if_splits)

lemma upload_body_no_config:
  "fst (upload_body cfg dirname rel bus_up fs bn req_file) = Inl ''No upload config found''
     \<longleftrightarrow> resolve_upload_policy cfg bn = None"
proof
  assume "resolve_upload_policy cfg bn = None"
  then show "fst (upload_body cfg dirname rel bus_up fs bn req_file) = Inl ''No upload config found''"
    by (simp add: upload_body_def)
next
  assume a: "fst (upload_body cfg dirname rel bus_up fs bn req_file) = Inl ''No upload config found''"
  show "resolve_upload_policy cfg bn = None"
  proof (rule ccontr)
    assume "resolve_upload_policy cfg bn \<noteq> None"
    then obtain pol where pol: "resolve_upload_policy cfg bn = Some pol" by auto
    from a show False
      unfolding upload_body_def
      by (auto simp: pol Let_def dest: unlink_msg mkdirSync_msg renameSync_msg
          split: option.splits sum.splits prod.splits if_splits)
  qed
qed

lemma upload_handler_no_config:
  assumes "\<forall>f. upfile = Some f \<longrightarrow> multer_can_store UPLOAD_DIR fs f"
  shows "fst (upload_handler cfg dirname UPLOAD_DIR rel bus_up fs bn upfile)
           = UploadResponse [] False ''No upload config found''
         \<longleftrightarrow> resolve_upload_policy cfg bn = None"
proof -
  obtain fs1 where st: "multer_store UPLOAD_DIR fs upfile = Inr fs1"
  proof (cases upfile)
    case None
    then show ?thesis using that by (simp add: multer_store_def)
  next
    case (Some f)
    with assms multer_store_ok [of UPLOAD_DIR fs f] show ?thesis using that by simp
  qed
  let ?req = "map_option (\<lambda>f. (f, multer_path UPLOAD_DIR f)) upfile"
  obtain r fs' pub where b: "upload_body cfg dirname rel bus_up fs1 bn ?req = (r, fs', pub)"
    by (cases "upload_body cfg dirname rel bus_up fs1 bn ?req") auto
  have "fst (upload_handler cfg dirname UPLOAD_DIR rel bus_up fs bn upfile)
           = UploadResponse [] False ''No upload config found''
        \<longleftrightarrow> r = Inl ''No upload config found''"
    by (cases r) (auto simp: upload_handler_def st b message_or_def)
  moreover have "r = Inl ''No upload config found'' \<longleftrightarrow> resolve_upload_policy cfg bn = None"
    using upload_body_no_config [of cfg dirname rel bus_up fs1 bn ?req] b by simp
  ultimately show ?thesis by simp
qed

lemma upload_body_mjs_no_config:
  "fst (upload_body_mjs cfg UPLOAD_DIR fs bn req_file) = Inl ''No upload config found''
     \<longleftrightarrow> resolve_upload_policy cfg bn = None"
proof
  assume "resolve_upload_policy cfg bn = None"
  then show "fst (upload_body_mjs cfg UPLOAD_DIR fs bn req_file) = Inl ''No upload config found''"
    by (simp add: upload_body_mjs_def)
next
  assume a: "fst (upload_body_mjs cfg UPLOAD_DIR fs bn req_file) = Inl ''No upload config found''"
  show "resolve_upload_policy cfg bn = None"
  proof (rule ccontr)
    assume "resolve_upload_policy cfg bn \<noteq> None"
    then obtain pol where pol: "resolve_upload_policy cfg bn = Some pol" by auto
    from a show False
      unfolding upload_body_mjs_def
      by (auto simp: pol Let_def dest: unlink_msg mkdirSync_msg renameSync_msg
          split: option.splits sum.splits prod.splits if_splits)
  qed
qed

lemma upload_handler_mjs_no_config:
  assumes "\<forall>f. upfile = Some f \<longrightarrow> multer_can_store UPLOAD_DIR fs f"
  shows "fst (upload_handler_mjs cfg UPLOAD_DIR fs bn upfile)
           = UploadResponse [] False ''No upload config found''
         \<longleftrightarrow> resolve_upload_policy cfg bn = None"
proof -
  obtain fs1 where st: "multer_store UPLOAD_DIR fs upfile = Inr fs1"
  proof (cases upfile)
    case None
    then show ?thesis using that by (simp add: multer_store_def)
  next
    case (Some f)
    with assms multer_store_ok [of UPLOAD_DIR fs f] show ?thesis using that by simp
  qed
  let ?req = "map_option (\<lambda>f. (f, multer_path UPLOAD_DIR f)) upfile"
  obtain r fs' where b: "upload_body_mjs cfg UPLOAD_DIR fs1 bn ?req = (r, fs')"
    by (cases "upload_body_mjs cfg UPLOAD_DIR fs1 bn ?req") auto
  have "fst (upload_handler_mjs cfg UPLOAD_DIR fs bn upfile)
           = UploadResponse [] False ''No upload config found''
        \<longleftrightarrow> r = Inl ''No upload config found''"
    by (cases r) (auto simp: upload_handler_mjs_def st b message_or_def)
  moreover have "r = Inl ''No upload config found'' \<longleftrightarrow> resolve_upload_policy cfg bn = None"
    using upload_body_mjs_no_config [of cfg UPLOAD_DIR fs1 bn ?req] b by simp
  ultimately show ?thesis by simp
qed

text \<open>
  C4 (as stated, refuted): with two Upload policies and no identifier in the request,
  the claim wants a rejection; the handler takes the first Upload member instead and
  accepts the file.
\<close>

theorem C4_counterexample:
  "length (filter (\<lambda>m. mtype m = ''upload'') (all_members two_uploads)) = 2
   \<and> resolve_upload_policy two_uploads None = Some upload_a
   \<and> fst (upload_handler two_uploads ''/srv/app'' ''/srv/app/uploads'' relative_example False
             disk_example None (Some \<lparr>originalname = ''note.txt'', size_bytes = 5\<rparr>))
       = UploadResponse ''note.txt'' True []
   \<and> fst (upload_handler_mjs two_uploads ''/srv/app/uploads''
             disk_example None (Some \<lparr>originalname = ''note.txt'', size_bytes = 5\<rparr>))
       = UploadResponse ''note.txt'' True []"
proof -
  have "fst (upload_handler two_uploads ''/srv/app'' ''/srv/app/uploads'' relative_example False
             disk_example None (Some \<lparr>originalname = ''note.txt'', size_bytes = 5\<rparr>))
       = UploadResponse ''note.txt'' True []"
    "fst (upload_handler_mjs two_uploads ''/srv/app/uploads''
             disk_example None (Some \<lparr>originalname = ''note.txt'', size_bytes = 5\<rparr>))
       = UploadResponse ''note.txt'' True []"
    by code_simp+
  then show ?thesis
    by (simp add: resolve_upload_policy_def getUploadConfig_def two_uploads_def all_members_def
      policy_match_def or_null_def truthy_def upload_a_def upload_b_def blank_def)
qed

text \<open>
  C4 (amended): the policy is the first Upload member whose \<open>button_name\<close> equals the
  supplied non-empty identifier, if there is one; in every other case (no identifier, an
  empty one, or one that names no Upload member) it is the first Upload member of the
  configuration, however many there are. Resolution fails exactly when the configuration
  has no Upload member, and exactly then the request is rejected with
  \<^verbatim>\<open>No upload config found\<close>: by the handler body whatever the file system and the
  file, and in the response of either file's handler to every multipart request that
  reaches it (one without a file, or with a file that multer could store).
\<close>

theorem C4_upload_policy_resolution:
  "resolve_upload_policy cfg bn =
     (case List.find (\<lambda>m. mtype m = ''upload'' \<and> truthy bn \<and> button_name m = bn) (all_members cfg) of
        Some m \<Rightarrow> Some m
      | None \<Rightarrow> List.find (\<lambda>m. mtype m = ''upload'') (all_members cfg))
   \<and> (resolve_upload_policy cfg bn = None
        \<longleftrightarrow> (\<forall>m \<in> set (all_members cfg). mtype m \<noteq> ''upload''))
   \<and> (fst (upload_body cfg dirname rel bus_up fs bn req_file) = Inl ''No upload config found''
        \<longleftrightarrow> (\<forall>m \<in> set (all_members cfg). mtype m \<noteq> ''upload''))
   \<and> ((\<forall>f. upfile = Some f \<longrightarrow> multer_can_store UPLOAD_DIR fs f) \<longrightarrow>
        (fst (upload_handler cfg dirname UPLOAD_DIR rel bus_up fs bn upfile)
           = UploadResponse [] False ''No upload config found''
         \<longleftrightarrow> (\<forall>m \<in> set (all_members cfg). mtype m \<noteq> ''upload'')))
   \<and> ((\<forall>f. upfile = Some f \<longrightarrow> multer_can_store UPLOAD_DIR fs f) \<longrightarrow>
        (fst (upload_handler_mjs cfg UPLOAD_DIR fs bn upfile)
           = UploadResponse [] False ''No upload config found''
         \<longleftrightarrow> (\<forall>m \<in> set (all_members cfg). mtype m \<noteq> ''upload'')))"
proof -
  let ?ms = "all_members cfg"
  let ?named = "\<lambda>m. mtype m = ''upload'' \<and> truthy bn \<and> button_name m = bn"
  let ?any = "\<lambda>m. mtype m = ''upload''"
  have "policy_match ''upload'' None = ?any"
    by (auto simp: policy_match_def truthy_def)
  then have any: "getUploadConfig cfg None = List.find ?any ?ms"
    by (simp add: getUploadConfig_find)
  have first: "resolve_upload_policy cfg bn =
      (case List.find ?named ?ms of Some m \<Rightarrow> Some m | None \<Rightarrow> List.find ?any ?ms)"
  proof (cases "truthy bn")
    case True
    then have "policy_match ''upload'' (or_null bn) = ?named"
      by (auto simp: policy_match_def or_null_def)
    then have "getUploadConfig cfg (or_null bn) = List.find ?named ?ms"
      by (simp add: getUploadConfig_find)
    then show ?thesis
      by (simp add: resolve_upload_policy_def any split: option.splits)
  next
    case False
    then have "policy_match ''upload'' (or_null bn) = ?any"
      by (auto simp: policy_match_def or_null_def truthy_def)
    then have "getUploadConfig cfg (or_null bn) = List.find ?any ?ms"
      by (simp add: getUploadConfig_find)
    moreover from False have "List.find ?named ?ms = None"
      by (simp add: find_None_iff)
    ultimately show ?thesis
      by (simp add: resolve_upload_policy_def any split: option.splits)
  qed
  have "resolve_upload_policy cfg bn = None \<longleftrightarrow> List.find ?any ?ms = None"
    unfolding first by (auto simp: find_None_iff split: option.splits dest: find_SomeD)
  then have second: "resolve_upload_policy cfg bn = None \<longleftrightarrow> (\<forall>m \<in> set ?ms. mtype m \<noteq> ''upload'')"
    by (auto simp: find_None_iff)
  have third: "fst (upload_body cfg dirname rel bus_up fs bn req_file) = Inl ''No upload config found''
        \<longleftrightarrow> (\<forall>m \<in> set ?ms. mtype m \<noteq> ''upload'')"
    using upload_body_no_config [of cfg dirname rel bus_up fs bn req_file] second by simp
  have fourth: "(\<forall>f. upfile = Some f \<longrightarrow> multer_can_store UPLOAD_DIR fs f) \<longrightarrow>
        (fst (upload_handler cfg dirname UPLOAD_DIR rel bus_up fs bn upfile)
           = UploadResponse [] False ''No upload config found''
         \<longleftrightarrow> (\<forall>m \<in> set ?ms. mtype m \<noteq> ''upload''))"
    using upload_handler_no_config [of upfile UPLOAD_DIR fs cfg dirname rel bus_up bn] second
    by simp
  have fifth: "(\<forall>f. upfile = Some f \<longrightarrow> multer_can_store UPLOAD_DIR fs f) \<longrightarrow>
        (fst (upload_handler_mjs cfg UPLOAD_DIR fs bn upfile)
           = UploadResponse [] False ''No upload config found''
         \<longleftrightarrow> (\<forall>m \<in> set ?ms. mtype m \<noteq> ''upload''))"
    using upload_handler_mjs_no_config [of upfile UPLOAD_DIR fs cfg bn] second
    by simp
  from first second third fourth fifth show ?thesis by blast
qed

theorem C4_witness:
  "resolve_upload_policy two_uploads (Some ''b'') = Some upload_b
   \<and> resolve_upload_policy two_uploads (Some ''zzz'') = Some upload_a
   \<and> resolve_upload_policy two_uploads None \<noteq> None
   \<and> multer_can_store ''/srv/app/uploads'' disk_example \<lparr>originalname = ''note.txt'', size_bytes = 5\<rparr>
   \<and> fst (upload_handler dl_config ''/srv/app'' ''/srv/app/uploads'' relative_example False
             disk_example None (Some \<lparr>originalname = ''note.txt'', size_bytes = 5\<rparr>))
       = UploadResponse [] False ''No upload config found''
   \<and> fst (upload_handler_mjs dl_config ''/srv/app/uploads''
             disk_example None (Some \<lparr>originalname = ''note.txt'', size_bytes = 5\<rparr>))
       = UploadResponse [] False ''No upload config found''"
proof -
  let ?f = "\<lparr>originalname = ''note.txt'', size_bytes = 5\<rparr>"
  have can: "multer_can_store ''/srv/app/uploads'' disk_example ?f" by code_simp
  have none: "\<forall>m \<in> set (all_members dl_config). mtype m \<noteq> ''upload''"
    by (simp add: dl_config_def config_of_def all_members_def download_dl_def blank_def)
  from C4_upload_policy_resolution
      [where cfg = dl_config and bn = None and upfile = "Some ?f" and fs = disk_example
         and UPLOAD_DIR = "''/srv/app/uploads''" and dirname = "''/srv/app''"
         and rel = relative_example and bus_up = False]
    can none
  have h: "fst (upload_handler dl_config ''/srv/app'' ''/srv/app/uploads'' relative_example False
             disk_example None (Some ?f)) = UploadResponse [] False ''No upload config found''"
    "fst (upload_handler_mjs dl_config ''/srv/app/uploads'' disk_example None (Some ?f))
       = UploadResponse [] False ''No upload config found''"
    by simp_all
  from C4_upload_policy_resolution [of two_uploads "Some ''b''"]
    C4_upload_policy_resolution [of two_uploads "Some ''zzz''"]
    C4_upload_policy_resolution [of two_uploads None]
  have r: "resolve_upload_policy two_uploads (Some ''b'') = Some upload_b
   \<and> resolve_upload_policy two_uploads (Some ''zzz'') = Some upload_a
   \<and> resolve_upload_policy two_uploads None \<noteq> None"
    by (simp add: two_uploads_def all_members_def truthy_def upload_a_def upload_b_def blank_def)
  from r can h show ?thesis by simp
qed

section \<open>Startup validation: duplicate button names\<close>

lemma validate_members_append:
  "validate_members S (xs @ ys) =
     (case validate_members S xs of Inl e \<Rightarrow> Inl e | Inr S' \<Rightarrow> validate_members S' ys)"
  by (induction xs arbitrary: S) (auto split: sum.splits)

lemma validate_tabs_flat: "validate_tabs S ts = validate_members S (concat (map members ts))"
  by (induction ts arbitrary: S) (auto simp: validate_members_append split: sum.splits)

lemma validateConfig_flat:
  "validateConfig cfg =
     (case validate_members {} (all_members cfg) of Inl e \<Rightarrow> Inl e | Inr _ \<Rightarrow> Inr ())"
  by (simp add: validateConfig_def validate_tabs_flat all_members_def)

lemma button_names_Cons:
  "button_names (m # ms) =
     (if has_button_name m then show_field (button_name m) # button_names ms else button_names ms)"
  by (simp add: button_names_def)

lemma validate_member_Inr:
  "validate_member S m = Inr S' \<Longrightarrow>
     S' = (if has_button_name m then insert (show_field (button_name m)) S else S)
     \<and> (has_button_name m \<longrightarrow> show_field (button_name m) \<notin> S)"
  by (auto simp: validate_member_def Let_def split: if_splits option.splits)

lemma check_fields_missing: "check_fields m = Some e \<Longrightarrow> missing_field_error e"
  by (auto simp: check_fields_def missing_field_error_def split: if_splits)

lemma validate_member_Inl:
  "validate_member S m = Inl e \<Longrightarrow>
     missing_field_error e
     \<or> (has_button_name m \<and> show_field (button_name m) \<in> S
         \<and> e = duplicate_error (show_field (button_name m)))"
  by (auto simp: validate_member_def Let_def check_fields_missing
      split: if_splits option.splits)

lemma validate_members_Inr:
  "validate_members S ms = Inr S' \<Longrightarrow>
     S' = S \<union> set (button_names ms) \<and> distinct (button_names ms)
     \<and> S \<inter> set (button_names ms) = {}"
proof (induction ms arbitrary: S)
  case Nil
  then show ?case by (simp add: button_names_def)
next
  case (Cons m ms)
  from Cons.prems obtain S1 where m: "validate_member S m = Inr S1"
    and rest: "validate_members S1 ms = Inr S'"
    by (auto split: sum.splits)
  note ih = Cons.IH [OF rest]
  note hd = validate_member_Inr [OF m]
  show ?case
  proof (cases "has_button_name m")
    case True
    with hd ih show ?thesis by (auto simp: button_names_Cons)
  next
    case False
    with hd ih show ?thesis by (auto simp: button_names_Cons)
  qed
qed

lemma count_list_pos: "x \<in> set xs \<Longrightarrow> 1 \<le> count_list xs x"
  by (induction xs) auto

lemma validate_members_Inl:
  "validate_members S ms = Inl e \<Longrightarrow>
     missing_field_error e
     \<or> (\<exists>n. e = duplicate_error n \<and> n \<in> set (button_names ms)
            \<and> (n \<in> S \<or> 2 \<le> count_list (button_names ms) n))"
proof (induction ms arbitrary: S)
  case Nil
  then show ?case by simp
next
  case (Cons m ms)
  show ?case
  proof (cases "validate_member S m")
    case (Inl e')
    with Cons.prems have "e' = e" by simp
    with Inl validate_member_Inl [of S m e] show ?thesis
      by (auto simp: button_names_Cons)
  next
    case (Inr S1)
    with Cons.prems have rest: "validate_members S1 ms = Inl e" by simp
    note hd = validate_member_Inr [OF Inr]
    from Cons.IH [OF rest] show ?thesis
    proof
      assume "missing_field_error e"
      then show ?thesis ..
    next
      assume "\<exists>n. e = duplicate_error n \<and> n \<in> set (button_names ms)
            \<and> (n \<in> S1 \<or> 2 \<le> count_list (button_names ms) n)"
      then obtain n where e: "e = duplicate_error n" and n: "n \<in> set (button_names ms)"
        and or: "n \<in> S1 \<or> 2 \<le> count_list (button_names ms) n"
        by blast
      from n have one: "1 \<le> count_list (button_names ms) n" by (rule count_list_pos)
      have "n \<in> S \<or> 2 \<le> count_list (button_names (m # ms)) n"
        using or hd one by (auto simp: button_names_Cons split: if_splits)
      moreover have "n \<in> set (button_names (m # ms))"
        using n by (simp add: button_names_Cons)
      ultimately show ?thesis using e by blast
    qed
  qed
qed

lemma duplicate_error_inj: "duplicate_error a = duplicate_error b \<Longrightarrow> a = b"
  by (simp add: duplicate_error_def)

lemma duplicate_not_missing: "\<not> missing_field_error (duplicate_error n)"
  by (simp add: missing_field_error_def duplicate_error_def)

lemma distinct_count_le: "distinct xs \<Longrightarrow> count_list xs x \<le> 1"
  by (induction xs) (auto simp: count_list_0_iff)

lemma validate_member_fields: "validate_member S m = Inr S' \<Longrightarrow> check_fields m = None"
  by (auto simp: validate_member_def Let_def split: if_splits option.splits)

lemma validate_members_fields:
  "validate_members S ms = Inr S' \<Longrightarrow> \<forall>m \<in> set ms. check_fields m = None"
proof (induction ms arbitrary: S)
  case Nil
  then show ?case by simp
next
  case (Cons m ms)
  from Cons.prems obtain S1 where m: "validate_member S m = Inr S1"
    and rest: "validate_members S1 ms = Inr S'"
    by (auto split: sum.splits)
  from validate_member_fields [OF m] Cons.IH [OF rest] show ?case by simp
qed

lemma validate_members_Inl_split:
  "validate_members S ms = Inl e \<Longrightarrow>
     \<exists>pre m post S1. ms = pre @ m # post \<and> validate_members S pre = Inr S1
        \<and> validate_member S1 m = Inl e"
proof (induction ms arbitrary: S)
  case Nil
  then show ?case by simp
next
  case (Cons a ms)
  show ?case
  proof (cases "validate_member S a")
    case (Inl e')
    with Cons.prems have "e' = e" by simp
    with Inl have "a # ms = [] @ a # ms \<and> validate_members S [] = Inr S \<and> validate_member S a = Inl e"
      by simp
    then show ?thesis by blast
  next
    case (Inr S1)
    with Cons.prems have "validate_members S1 ms = Inl e" by simp
    from Cons.IH [OF this] obtain pre m post S2 where
      "ms = pre @ m # post" "validate_members S1 pre = Inr S2" "validate_member S2 m = Inl e"
      by blast
    with Inr have "a # ms = (a # pre) @ m # post \<and> validate_members S (a # pre) = Inr S2
        \<and> validate_member S2 m = Inl e"
      by simp
    then show ?thesis by blast
  qed
qed

lemma validate_member_Inl_cases:
  "validate_member S m = Inl e \<Longrightarrow>
     (if has_button_name m \<and> show_field (button_name m) \<in> S
      then e = duplicate_error (show_field (button_name m))
      else check_fields m = Some e)"
  by (auto simp: validate_member_def Let_def split: if_splits option.splits)

lemma validateConfig_failure:
  assumes "validateConfig cfg = Inl e"
  shows "\<exists>pre m post. all_members cfg = pre @ m # post
         \<and> distinct (button_names pre) \<and> (\<forall>x \<in> set pre. check_fields x = None)
         \<and> (if has_button_name m \<and> show_field (button_name m) \<in> set (button_names pre)
            then e = duplicate_error (show_field (button_name m))
            else check_fields m = Some e)"
proof -
  from assms have "validate_members {} (all_members cfg) = Inl e"
    by (simp add: validateConfig_flat split: sum.splits)
  from validate_members_Inl_split [OF this] obtain pre m post S1 where
    ms: "all_members cfg = pre @ m # post" and pre: "validate_members {} pre = Inr S1"
    and m: "validate_member S1 m = Inl e"
    by blast
  from validate_members_Inr [OF pre] have S1: "S1 = set (button_names pre)"
    and d: "distinct (button_names pre)" by simp_all
  from validate_members_fields [OF pre] have f: "\<forall>x \<in> set pre. check_fields x = None" .
  from validate_member_Inl_cases [OF m] S1 ms d f show ?thesis by blast
qed

text \<open>
  C3 (as stated, refuted): two buttons share the button_name \<^verbatim>\<open>''\<close> and validation passes
  (the duplicate check skips falsy names); and a configuration with two members named
  \<^verbatim>\<open>logs\<close> fails with the missing-field error of an earlier member, which does not name
  \<^verbatim>\<open>logs\<close>.
\<close>

theorem C3_counterexample:
  "map (\<lambda>m. (mtype m, button_name m)) (all_members empty_names)
      = [(''button'', Some []), (''button'', Some [])]
   \<and> validateConfig empty_names = Inr ()
   \<and> startup_of empty_names = Serving
   \<and> map (\<lambda>m. (mtype m, button_name m)) (all_members upload_then_logs)
      = [(''upload'', Some ''u''), (''button'', Some ''logs''), (''button'', Some ''logs'')]
   \<and> validateConfig upload_then_logs
      = Inl ''Upload config missing upload_directory for button: u''"
  by (simp add: empty_names_def upload_then_logs_def config_of_def button_of_def blank_def
      all_members_def startup_of_def validateConfig_def validate_member_def has_button_name_def
      check_fields_def truthy_def show_field_def duplicate_error_def)

text \<open>
  C3 (amended): when two Button/Upload/Download members, in any tabs and at any
  positions, share the same non-empty button_name, validation fails and the process
  exits with status 1 instead of serving. The error is raised at the first member, in
  visiting order, that repeats the non-empty button_name of an earlier member or lacks a
  field required for its type: the members before it have pairwise distinct non-empty
  button_names and all their required fields; if it repeats an earlier button_name the
  error is the duplicate error naming that button_name, otherwise it is the missing-field
  error of that member. In particular, when every member has its required fields, the
  error is the duplicate error naming the first repeated button_name. When the non-empty
  button_names of those members are pairwise distinct, no duplicate error is raised.
\<close>

theorem C3_duplicate_button_names:
  "(\<not> distinct (button_names (all_members cfg)) \<longrightarrow>
      (\<exists>pre m post e. all_members cfg = pre @ m # post
         \<and> distinct (button_names pre) \<and> (\<forall>x \<in> set pre. check_fields x = None)
         \<and> validateConfig cfg = Inl e
         \<and> startup_of cfg = Exited 1 (''Config validation failed: '' @ e)
         \<and> (if has_button_name m \<and> show_field (button_name m) \<in> set (button_names pre)
            then e = duplicate_error (show_field (button_name m))
            else check_fields m = Some e)))
   \<and> (\<not> distinct (button_names (all_members cfg))
        \<and> (\<forall>x \<in> set (all_members cfg). check_fields x = None) \<longrightarrow>
      (\<exists>pre m post. all_members cfg = pre @ m # post
         \<and> distinct (button_names pre)
         \<and> has_button_name m \<and> show_field (button_name m) \<in> set (button_names pre)
         \<and> validateConfig cfg = Inl (duplicate_error (show_field (button_name m)))
         \<and> startup_of cfg = Exited 1 (''Config validation failed: ''
               @ duplicate_error (show_field (button_name m)))))
   \<and> (distinct (button_names (all_members cfg)) \<longrightarrow>
      (\<forall>n. validateConfig cfg \<noteq> Inl (duplicate_error n)))"
proof (intro conjI impI allI)
  assume dup: "\<not> distinct (button_names (all_members cfg))"
  obtain e where v: "validateConfig cfg = Inl e"
  proof (cases "validate_members {} (all_members cfg)")
    case (Inl e)
    then show ?thesis using that by (simp add: validateConfig_flat)
  next
    case (Inr S')
    from validate_members_Inr [OF Inr] dup show ?thesis by simp
  qed
  then have s: "startup_of cfg = Exited 1 (''Config validation failed: '' @ e)"
    by (simp add: startup_of_def)
  from validateConfig_failure [OF v] v s
  show "\<exists>pre m post e. all_members cfg = pre @ m # post
         \<and> distinct (button_names pre) \<and> (\<forall>x \<in> set pre. check_fields x = None)
         \<and> validateConfig cfg = Inl e
         \<and> startup_of cfg = Exited 1 (''Config validation failed: '' @ e)
         \<and> (if has_button_name m \<and> show_field (button_name m) \<in> set (button_names pre)
            then e = duplicate_error (show_field (button_name m))
            else check_fields m = Some e)"
    by blast
next
  assume a: "\<not> distinct (button_names (all_members cfg))
        \<and> (\<forall>x \<in> set (all_members cfg). check_fields x = None)"
  obtain e where v: "validateConfig cfg = Inl e"
  proof (cases "validate_members {} (all_members cfg)")
    case (Inl e)
    then show ?thesis using that by (simp add: validateConfig_flat)
  next
    case (Inr S')
    from validate_members_Inr [OF Inr] a show ?thesis by simp
  qed
  from validateConfig_failure [OF v] obtain pre m post where
    ms: "all_members cfg = pre @ m # post" and d: "distinct (button_names pre)"
    and c: "if has_button_name m \<and> show_field (button_name m) \<in> set (button_names pre)
            then e = duplicate_error (show_field (button_name m))
            else check_fields m = Some e"
    by blast
  from a ms have "check_fields m = None" by simp
  with c have h: "has_button_name m \<and> show_field (button_name m) \<in> set (button_names pre)"
    and e: "e = duplicate_error (show_field (button_name m))"
    by (auto split: if_splits)
  from v e have "startup_of cfg = Exited 1 (''Config validation failed: ''
               @ duplicate_error (show_field (button_name m)))"
    by (simp add: startup_of_def)
  with ms d h v e
  show "\<exists>pre m post. all_members cfg = pre @ m # post
         \<and> distinct (button_names pre)
         \<and> has_button_name m \<and> show_field (button_name m) \<in> set (button_names pre)
         \<and> validateConfig cfg = Inl (duplicate_error (show_field (button_name m)))
         \<and> startup_of cfg = Exited 1 (''Config validation failed: ''
               @ duplicate_error (show_field (button_name m)))"
    by blast
next
  fix n
  assume d: "distinct (button_names (all_members cfg))"
  show "validateConfig cfg \<noteq> Inl (duplicate_error n)"
  proof
    assume "validateConfig cfg = Inl (duplicate_error n)"
    then have "validate_members {} (all_members cfg) = Inl (duplicate_error n)"
      by (simp add: validateConfig_flat split: sum.splits)
    from validate_members_Inl [OF this] duplicate_not_missing [of n]
    obtain n' where "duplicate_error n = duplicate_error n'"
      and c: "2 \<le> count_list (button_names (all_members cfg)) n'"
      by auto
    with distinct_count_le [OF d, of n'] show False by simp
  qed
qed

lemma button_names_append: "button_names (xs @ ys) = button_names xs @ button_names ys"
  by (simp add: button_names_def)

theorem C3_witness:
  "\<not> distinct (button_names (all_members two_logs))
   \<and> map check_fields (all_members two_logs) = [None, None]
   \<and> validateConfig two_logs = Inl (duplicate_error ''logs'')
   \<and> startup_of two_logs = Exited 1 ''Config validation failed: Duplicate button_name found in config: logs''
   \<and> distinct (button_names (all_members two_uploads))
   \<and> validateConfig two_uploads \<noteq> Inl (duplicate_error ''logs'')"
proof -
  have names: "button_names (all_members two_logs) = [''logs'', ''logs'']"
    by (simp add: two_logs_def all_members_def button_names_def has_button_name_def
        upload_a_def upload_b_def blank_def truthy_def show_field_def)
  have names2: "button_names (all_members two_uploads) = [''a'', ''b'']"
    by (simp add: two_uploads_def all_members_def button_names_def has_button_name_def
        upload_a_def upload_b_def blank_def truthy_def show_field_def)
  have fields_list: "map check_fields (all_members two_logs) = [None, None]"
    by (simp add: two_logs_def all_members_def check_fields_def
        upload_a_def upload_b_def blank_def truthy_def)
  have fields: "\<forall>x \<in> set (all_members two_logs). check_fields x = None"
  proof
    fix x
    assume "x \<in> set (all_members two_logs)"
    then have "check_fields x \<in> set (map check_fields (all_members two_logs))" by simp
    then show "check_fields x = None" unfolding fields_list by simp
  qed
  from C3_duplicate_button_names [of two_logs] names fields
  obtain pre m post where ms: "all_members two_logs = pre @ m # post"
    and m: "show_field (button_name m) \<in> set (button_names pre)"
    and v: "validateConfig two_logs = Inl (duplicate_error (show_field (button_name m)))"
    and s: "startup_of two_logs = Exited 1 (''Config validation failed: ''
               @ duplicate_error (show_field (button_name m)))"
    by auto
  from names ms have "set (button_names pre) \<union> set (button_names (m # post)) = {''logs''}"
    by (simp add: button_names_append flip: set_append)
  then have "set (button_names pre) \<subseteq> {''logs''}" by blast
  with m have n: "show_field (button_name m) = ''logs''" by auto
  from C3_duplicate_button_names [of two_uploads] names2
  have "validateConfig two_uploads \<noteq> Inl (duplicate_error ''logs'')"
    by simp
  with v s n names names2 fields_list show ?thesis by (simp add: duplicate_error_def)
qed

lemma check_fields_None:
  "check_fields m = None \<longleftrightarrow>
     (mtype m = ''upload'' \<longrightarrow> truthy (upload_directory m) \<and> allowed_extensions m \<noteq> None)
   \<and> (mtype m = ''download'' \<longrightarrow> truthy (root_directory m) \<and> allowed_extensions m \<noteq> None)
   \<and> (mtype m = ''button'' \<longrightarrow> truthy (publish_topic m))"
  by (auto simp: check_fields_def)

text \<open>
  A configuration that passes validation satisfies the invariants of the data model: the
  non-empty button names of its Button, Upload and Download members are pairwise
  distinct, every Upload member has an upload directory and an allow-list, every Download
  member a root directory and an allow-list, every Button member a publish topic.
\<close>

theorem validated_config_invariants:
  assumes "startup_of cfg = Serving"
  shows "distinct (button_names (all_members cfg))
       \<and> (\<forall>m \<in> set (all_members cfg).
            (mtype m = ''upload'' \<longrightarrow> truthy (upload_directory m) \<and> allowed_extensions m \<noteq> None)
          \<and> (mtype m = ''download'' \<longrightarrow> truthy (root_directory m) \<and> allowed_extensions m \<noteq> None)
          \<and> (mtype m = ''button'' \<longrightarrow> truthy (publish_topic m)))"
proof -
  from assms obtain S where ok: "validate_members {} (all_members cfg) = Inr S"
    by (auto simp: startup_of_def validateConfig_flat split: sum.splits)
  from validate_members_Inr [OF ok] have "distinct (button_names (all_members cfg))" by simp
  moreover from validate_members_fields [OF ok]
  have "\<forall>m \<in> set (all_members cfg). check_fields m = None" .
  ultimately show ?thesis by (simp add: check_fields_None)
qed

theorem validated_config_invariants_witness:
  "startup_of two_uploads = Serving \<and> distinct (button_names (all_members two_uploads))"
proof -
  have "startup_of two_uploads = Serving" by code_simp
  with validated_config_invariants [of two_uploads] show ?thesis by simp
qed

section \<open>Path lemmas\<close>

lemma split_on_nonempty: "split_on c s \<noteq> []"
  by (induction s) (auto split: list.splits)

lemma split_on_append: "split_on c (a @ c # b) = split_on c a @ split_on c b"
proof (induction a)
  case Nil
  then show ?case by simp
next
  case (Cons x a)
  then show ?case
    using split_on_nonempty [of c a] by (auto split: list.splits)
qed

lemma split_on_no_sep: "c \<notin> set s \<Longrightarrow> split_on c s = [s]"
  by (induction s) auto

lemma split_on_segment_no_sep: "t \<in> set (split_on c s) \<Longrightarrow> c \<notin> set t"
  by (induction s arbitrary: t) (auto split: if_splits list.splits)

lemma split_join:
  "segs \<noteq> [] \<Longrightarrow> \<forall>t \<in> set segs. c \<notin> set t \<Longrightarrow> split_on c (join_with [c] segs) = segs"
proof (induction "[c]" segs rule: join_with.induct)
  case 1
  then show ?case by simp
next
  case (2 s)
  then show ?case by (simp add: split_on_no_sep)
next
  case (3 s t ss)
  then show ?case
    using split_on_append [of c s "join_with [c] (t # ss)"] by (simp add: split_on_no_sep)
qed

lemma join_with_empty_iff:
  "\<forall>s \<in> set segs. s \<noteq> [] \<Longrightarrow> join_with sep segs = [] \<longleftrightarrow> segs = []"
  by (induction sep segs rule: join_with.induct) auto

lemma normalize_segments_append:
  "normalize_segments a res (xs @ ys) = normalize_segments a (normalize_segments a res xs) ys"
  by (induction xs arbitrary: res) auto

lemma normalize_segments_proper:
  "\<forall>s \<in> set res. proper_segment s \<Longrightarrow> \<forall>s \<in> set xs. CHR ''/'' \<notin> set s \<Longrightarrow>
     \<forall>s \<in> set (normalize_segments False res xs). proper_segment s"
proof (induction xs arbitrary: res)
  case Nil
  then show ?case by simp
next
  case (Cons x xs)
  have bl: "\<forall>s \<in> set (butlast res). proper_segment s"
    using Cons.prems(1) by (auto dest: in_set_butlastD)
  have ext: "\<not> (x = [] \<or> x = ''.'') \<Longrightarrow> x \<noteq> ''..'' \<Longrightarrow> \<forall>s \<in> set (res @ [x]). proper_segment s"
    using Cons.prems by (auto simp: proper_segment_def)
  from Cons.prems(2) have rest: "\<forall>s \<in> set xs. CHR ''/'' \<notin> set s" by simp
  show ?case
    using Cons.IH [OF Cons.prems(1) rest] Cons.IH [OF bl rest] Cons.IH [OF ext rest]
    by auto
qed

lemma normalize_segments_no_dotdot:
  "''..'' \<notin> set xs \<Longrightarrow>
     normalize_segments a res xs = res @ filter (\<lambda>s. s \<noteq> [] \<and> s \<noteq> ''.'') xs"
  by (induction xs arbitrary: res) auto

lemma canonical_segments_proper: "\<forall>s \<in> set (canonical_segments p). proper_segment s"
  unfolding canonical_segments_def
  by (rule normalize_segments_proper) (auto dest: split_on_segment_no_sep)

lemma proper_no_sep: "\<forall>s \<in> set R. proper_segment s \<Longrightarrow> \<forall>t \<in> set R. CHR ''/'' \<notin> set t"
  by (simp add: proper_segment_def)

lemma normalize_segments_id:
  "\<forall>s \<in> set xs. proper_segment s \<Longrightarrow> normalize_segments a res xs = res @ xs"
proof -
  assume p: "\<forall>s \<in> set xs. proper_segment s"
  then have "''..'' \<notin> set xs" by (auto simp: proper_segment_def)
  moreover from p have "filter (\<lambda>s. s \<noteq> [] \<and> s \<noteq> ''.'') xs = xs"
    by (auto simp: proper_segment_def filter_id_conv)
  ultimately show ?thesis by (simp add: normalize_segments_no_dotdot)
qed

text \<open>The segments of a rendered absolute path.\<close>

lemma canonical_rendered:
  assumes R: "\<forall>s \<in> set R. proper_segment s" and t: "t = [] \<or> t = ''/''"
  shows "canonical_segments (CHR ''/'' # join_with ''/'' R @ t) = R"
proof (cases "R = []")
  case True
  with t show ?thesis by (auto simp: canonical_segments_def)
next
  case False
  have sp: "split_on CHR ''/'' (join_with ''/'' R) = R"
    using split_join [OF False, of "CHR ''/''"] proper_no_sep [OF R] by simp
  have "split_on CHR ''/'' (CHR ''/'' # join_with ''/'' R @ t) = [] # R @ (if t = [] then [] else [[]])"
  proof (cases "t = []")
    case True
    then show ?thesis using sp by simp
  next
    case False
    with t have "t = ''/''" by simp
    then show ?thesis
      using split_on_append [of "CHR ''/''" "join_with ''/'' R" "[]"] sp by simp
  qed
  then show ?thesis
    using normalize_segments_id [OF R, of False "[]"]
    by (simp add: canonical_segments_def normalize_segments_append)
qed

lemma segments_of_rendered:
  assumes R: "\<forall>s \<in> set R. proper_segment s"
  shows "segments_of (CHR ''/'' # join_with ''/'' R) = R"
proof (cases "R = []")
  case True
  then show ?thesis by (simp add: segments_of_def)
next
  case False
  have sp: "split_on CHR ''/'' (join_with ''/'' R) = R"
    using split_join [OF False, of "CHR ''/''"] proper_no_sep [OF R] by simp
  from R have "filter (\<lambda>s. s \<noteq> []) R = R"
    by (auto simp: proper_segment_def filter_id_conv)
  then show ?thesis using sp by (simp add: segments_of_def)
qed

lemma isAbsolute_Cons: "isAbsolute p \<longleftrightarrow> (\<exists>r. p = CHR ''/'' # r)"
  by (cases p) (auto simp: isAbsolute_def)

lemma path_normalize_absolute:
  assumes "isAbsolute p"
  shows "\<exists>t. (t = [] \<or> t = ''/'') \<and>
           path_normalize p = CHR ''/'' # join_with ''/'' (canonical_segments p) @ t"
proof -
  let ?R = "canonical_segments p"
  from assms have ne: "p \<noteq> []" by (auto simp: isAbsolute_def)
  have ns: "normalizeString p False = join_with ''/'' ?R"
    by (simp add: normalizeString_def canonical_segments_def)
  have e: "join_with ''/'' ?R = [] \<longleftrightarrow> ?R = []"
    using canonical_segments_proper [of p]
    by (intro join_with_empty_iff) (auto simp: proper_segment_def)
  show ?thesis
  proof (cases "?R = []")
    case True
    with e have "path_normalize p = ''/''"
      using assms ne by (simp add: path_normalize_def ns Let_def)
    with True show ?thesis by simp
  next
    case False
    with e have "path_normalize p =
        CHR ''/'' # join_with ''/'' ?R @ (if last p = CHR ''/'' then ''/'' else [])"
      using assms ne by (simp add: path_normalize_def ns Let_def)
    then show ?thesis by auto
  qed
qed

lemma canonical_path_normalize:
  "isAbsolute p \<Longrightarrow> canonical_segments (path_normalize p) = canonical_segments p"
proof -
  assume "isAbsolute p"
  from path_normalize_absolute [OF this] obtain t where t: "t = [] \<or> t = ''/''"
    and n: "path_normalize p = CHR ''/'' # join_with ''/'' (canonical_segments p) @ t"
    by blast
  from canonical_rendered [OF canonical_segments_proper [of p] t] n show ?thesis by simp
qed

lemma isAbsolute_path_normalize: "isAbsolute p \<Longrightarrow> isAbsolute (path_normalize p)"
  using path_normalize_absolute [of p] by (auto simp: isAbsolute_def)

lemma canonical_append_slash: "canonical_segments (p @ ''/'') = canonical_segments p"
  using split_on_append [of "CHR ''/''" p "[]"]
  by (simp add: canonical_segments_def normalize_segments_append)

lemma path_resolve_absolute:
  assumes "isAbsolute p"
  shows "path_resolve cwd p = CHR ''/'' # join_with ''/'' (canonical_segments p)"
proof -
  from assms have "p \<noteq> []" "isAbsolute (p @ ''/'')" by (auto simp: isAbsolute_def split: list.splits)
  moreover have "normalizeString (p @ ''/'') False = join_with ''/'' (canonical_segments p)"
    using canonical_append_slash [of p] by (simp add: normalizeString_def canonical_segments_def)
  ultimately show ?thesis using assms by (simp add: path_resolve_def Let_def)
qed

lemma segments_of_path_resolve:
  "isAbsolute p \<Longrightarrow> segments_of (path_resolve cwd p) = canonical_segments p"
  by (simp add: path_resolve_absolute segments_of_rendered canonical_segments_proper)

lemma canonical_path_join:
  assumes "isAbsolute a"
  shows "canonical_segments (path_join a b) =
           normalize_segments False (canonical_segments a) (split_on CHR ''/'' b)"
    and "isAbsolute (path_join a b)"
proof -
  from assms have ne: "a \<noteq> []" by (auto simp: isAbsolute_def)
  show "canonical_segments (path_join a b) =
           normalize_segments False (canonical_segments a) (split_on CHR ''/'' b)"
  proof (cases "b = []")
    case True
    with ne assms show ?thesis
      by (simp add: path_join_def canonical_path_normalize)
  next
    case False
    from assms have abs: "isAbsolute (a @ ''/'' @ b)" by (auto simp: isAbsolute_def split: list.splits)
    have "canonical_segments (a @ ''/'' @ b) =
            normalize_segments False (canonical_segments a) (split_on CHR ''/'' b)"
      using split_on_append [of "CHR ''/''" a b]
      by (simp add: canonical_segments_def normalize_segments_append)
    with False ne abs show ?thesis
      by (simp add: path_join_def canonical_path_normalize)
  qed
  show "isAbsolute (path_join a b)"
  proof (cases "b = []")
    case True
    with ne assms show ?thesis by (simp add: path_join_def isAbsolute_path_normalize)
  next
    case False
    from assms have abs: "isAbsolute (a @ ''/'' @ b)" by (auto simp: isAbsolute_def split: list.splits)
    with False ne show ?thesis by (simp add: path_join_def isAbsolute_path_normalize)
  qed
qed

section \<open>Browse endpoint: containment\<close>

lemma strip_dot_runs_no_dotdot: "\<not> has_dotdot (strip_dot_runs n s)"
proof (induction s arbitrary: n)
  case Nil
  then show ?case by simp
next
  case (Cons c cs)
  show ?case
  proof (cases "c = CHR ''.''")
    case True
    then show ?thesis using Cons.IH by simp
  next
    case False
    then show ?thesis using Cons.IH [of 0] by (auto split: list.splits)
  qed
qed

lemma split_on_head: "split_on c s = t # ts \<Longrightarrow> t = takeWhile (\<lambda>x. x \<noteq> c) s"
  by (induction s arbitrary: t ts) (auto simp: split_on_nonempty split: if_splits list.splits)

lemma dotdot_segment_has_dotdot:
  "''..'' \<in> set (split_on c s) \<Longrightarrow> c \<noteq> CHR ''.'' \<Longrightarrow> has_dotdot s"
proof (induction s)
  case Nil
  then show ?case by simp
next
  case (Cons x xs)
  show ?case
  proof (cases "x = c")
    case True
    with Cons show ?thesis by auto
  next
    case False
    obtain t ts where sp: "split_on c xs = t # ts"
      using split_on_nonempty [of c xs] by (cases "split_on c xs") auto
    with False Cons.prems(1) have "''..'' = x # t \<or> ''..'' \<in> set ts" by auto
    then show ?thesis
    proof
      assume "''..'' = x # t"
      then have x: "x = CHR ''.''" and t: "t = ''.''" by auto
      from split_on_head [OF sp] t have "takeWhile (\<lambda>x. x \<noteq> c) xs = ''.''" by simp
      then have "\<exists>r. xs = CHR ''.'' # r" by (cases xs) (auto split: if_splits)
      with x show ?thesis by auto
    next
      assume "''..'' \<in> set ts"
      with sp Cons.IH Cons.prems(2) show ?thesis by simp
    qed
  qed
qed

lemma sanitize_no_dotdot_segment: "''..'' \<notin> set (split_on CHR ''/'' (sanitize_relPath q))"
  using dotdot_segment_has_dotdot [of "CHR ''/''" "sanitize_relPath q"]
    strip_dot_runs_no_dotdot [of 0]
  by (auto simp: sanitize_relPath_def)

lemma isAbsolute_resolveDir: "isAbsolute dirname \<Longrightarrow> isAbsolute (resolveDir dirname d)"
  by (simp add: resolveDir_def canonical_path_join(2))

lemma join_inside:
  assumes "isAbsolute rootDir" and "''..'' \<notin> set (split_on CHR ''/'' rel)"
  shows "inside (path_resolve cwd rootDir) (path_resolve cwd (path_join rootDir rel))"
proof -
  have "canonical_segments (path_join rootDir rel) =
          canonical_segments rootDir @ filter (\<lambda>s. s \<noteq> [] \<and> s \<noteq> ''.'') (split_on CHR ''/'' rel)"
    using canonical_path_join(1) [OF assms(1), of rel] assms(2)
    by (simp add: normalize_segments_no_dotdot)
  then show ?thesis
    using assms(1) canonical_path_join(2) [OF assms(1), of rel]
    by (simp add: inside_def segments_of_path_resolve)
qed

lemma browse_target_inside:
  assumes "isAbsolute rootDir"
  shows "inside (path_resolve cwd rootDir) (path_resolve cwd (path_join rootDir (sanitize_relPath q)))"
  using assms sanitize_no_dotdot_segment by (rule join_inside)

lemma strip_dot_pairs_Cons: "b \<noteq> CHR ''.'' \<Longrightarrow> strip_dot_pairs (b # cs) = b # strip_dot_pairs cs"
  by (cases cs) auto

lemma strip_dot_pairs_no_dotdot: "\<not> has_dotdot (strip_dot_pairs s)"
proof (induction s rule: strip_dot_pairs.induct)
  case (1 a b cs)
  show ?case
  proof (cases "a = CHR ''.'' \<and> b = CHR ''.''")
    case True
    with 1 show ?thesis by simp
  next
    case False
    show ?thesis
    proof (cases "a = CHR ''.''")
      case True
      with False have "b \<noteq> CHR ''.''" by simp
      with True 1 False show ?thesis by (simp add: strip_dot_pairs_Cons)
    next
      case False
      with 1 show ?thesis by simp
    qed
  qed
qed simp_all

lemma sanitize_mjs_no_dotdot_segment:
  "''..'' \<notin> set (split_on CHR ''/'' (sanitize_relPath_mjs q))"
  using dotdot_segment_has_dotdot [of "CHR ''/''" "sanitize_relPath_mjs q"]
    strip_dot_pairs_no_dotdot
  by (auto simp: sanitize_relPath_mjs_def)

lemma isAbsolute_rootDir_mjs: "isAbsolute dirname \<Longrightarrow> isAbsolute (rootDir_mjs dirname r)"
  by (simp add: rootDir_mjs_def canonical_path_join(2))

lemma browse_mjs_cases:
  "(\<exists>status msg. browse_mjs cfg dirname readdir qp = BrowseError status msg)
   \<or> (\<exists>entries.
         readdir (path_join (rootDir_mjs dirname (filesTab_download_root cfg)) (sanitize_relPath_mjs qp)) = ReaddirEntries entries
       \<and> browse_mjs cfg dirname readdir qp =
           BrowseListing (sanitize_relPath_mjs qp) (directories_of entries) (files_of entries))"
  by (cases "readdir (path_join (rootDir_mjs dirname (filesTab_download_root cfg)) (sanitize_relPath_mjs qp))")
     (auto simp: browse_mjs_def Let_def)

lemma browse_cases:
  assumes "isAbsolute dirname"
  shows "(\<exists>status msg. browse cfg dirname cwd readdir bn qp = BrowseError status msg)
       \<or> (\<exists>rootDir entries.
             browse_root cfg dirname bn = Some rootDir
           \<and> readdir (path_join rootDir (sanitize_relPath qp)) = ReaddirEntries entries
           \<and> browse cfg dirname cwd readdir bn qp =
               BrowseListing (sanitize_relPath qp) (directories_of entries) (files_of entries)
           \<and> inside (path_resolve cwd rootDir)
                 (path_resolve cwd (path_join rootDir (sanitize_relPath qp))))"
proof (cases "browse_root cfg dirname bn")
  case None
  then show ?thesis
    by (auto simp: browse_def browse_root_def split: option.splits)
next
  case (Some rootDir)
  then obtain m rt where m: "resolve_download_policy cfg bn = Some m"
    and root: "root_directory m = Some rt" and rd: "rootDir = resolveDir dirname rt"
    by (auto simp: browse_root_def split: option.splits)
  from rd assms have abs: "isAbsolute rootDir" by (simp add: isAbsolute_resolveDir)
  note ins = browse_target_inside [OF abs, of cwd qp]
  show ?thesis
  proof (cases "readdir (path_join rootDir (sanitize_relPath qp))")
    case (ReaddirThrows msg)
    with m root rd show ?thesis by (simp add: browse_def Let_def)
  next
    case ReaddirError
    with m root rd show ?thesis by (simp add: browse_def Let_def)
  next
    case (ReaddirEntries entries)
    show ?thesis
    proof (cases "prefix (path_resolve cwd rootDir)
                    (path_resolve cwd (path_join rootDir (sanitize_relPath qp)))")
      case True
      with m root rd ReaddirEntries have
        "browse cfg dirname cwd readdir bn qp =
           BrowseListing (sanitize_relPath qp) (directories_of entries) (files_of entries)"
        by (simp add: browse_def Let_def)
      with Some ReaddirEntries ins show ?thesis by blast
    next
      case False
      with m root rd show ?thesis by (simp add: browse_def Let_def)
    qed
  qed
qed

text \<open>
  C1 (as stated, refuted): for \<^verbatim>\<open>path=../../etc\<close> the dots are stripped and
  \<^verbatim>\<open>downloads/etc\<close> is read; it does not exist, and the response is a 500 that is neither
  the access-denied error nor a listing.
\<close>

theorem C1_counterexample:
  "browse dl_config ''/srv/app'' ''/srv/app'' readdir_example None (Some ''../../etc'')
     = BrowseError 500 ''Failed to list directory''"
  by code_simp

text \<open>
  C1 (amended): whatever the \<open>path\<close> query string contains, the response of either
  browse handler is an error that carries no directory entries, or it lists the
  directories and the regular files among the entries that \<^verbatim>\<open>fs.readdir\<close> delivers for
  one path, and that path, canonicalized as text the way \<^verbatim>\<open>path.resolve\<close> does it, is
  the root or continues the root segment by segment. The root of \<^verbatim>\<open>upload_server.js\<close> is the \<^verbatim>\<open>root_directory\<close> of the
  resolved Download member; the root of \<^verbatim>\<open>upload_server.mjs\<close> is the
  \<^verbatim>\<open>download.root_directory\<close> of the tab whose id is \<^verbatim>\<open>files\<close>, and
  \<^verbatim>\<open>uploads\<close> when there is none, whatever the Download members say; either is taken
  under \<^verbatim>\<open>__dirname\<close> when it is relative. The containment is one of path names only:
  no symbolic link is resolved, so what \<^verbatim>\<open>fs.readdir\<close> delivers for a path that runs
  through a link inside the root may be the content of a directory outside it.
\<close>

theorem C1_browse_containment:
  assumes "isAbsolute dirname"
  shows "((\<exists>status msg. browse cfg dirname cwd readdir bn qp = BrowseError status msg)
       \<or> (\<exists>rootDir entries.
             browse_root cfg dirname bn = Some rootDir
           \<and> readdir (path_join rootDir (sanitize_relPath qp)) = ReaddirEntries entries
           \<and> browse cfg dirname cwd readdir bn qp =
               BrowseListing (sanitize_relPath qp) (directories_of entries) (files_of entries)
           \<and> inside (path_resolve cwd rootDir)
                 (path_resolve cwd (path_join rootDir (sanitize_relPath qp)))))
     \<and> ((\<exists>status msg. browse_mjs cfg dirname readdir qp = BrowseError status msg)
       \<or> (\<exists>entries.
             readdir (path_join (rootDir_mjs dirname (filesTab_download_root cfg)) (sanitize_relPath_mjs qp)) = ReaddirEntries entries
           \<and> browse_mjs cfg dirname readdir qp =
               BrowseListing (sanitize_relPath_mjs qp) (directories_of entries) (files_of entries)
           \<and> inside (path_resolve cwd (rootDir_mjs dirname (filesTab_download_root cfg)))
                 (path_resolve cwd (path_join (rootDir_mjs dirname (filesTab_download_root cfg)) (sanitize_relPath_mjs qp)))))"
proof
  show "(\<exists>status msg. browse cfg dirname cwd readdir bn qp = BrowseError status msg)
       \<or> (\<exists>rootDir entries.
             browse_root cfg dirname bn = Some rootDir
           \<and> readdir (path_join rootDir (sanitize_relPath qp)) = ReaddirEntries entries
           \<and> browse cfg dirname cwd readdir bn qp =
               BrowseListing (sanitize_relPath qp) (directories_of entries) (files_of entries)
           \<and> inside (path_resolve cwd rootDir)
                 (path_resolve cwd (path_join rootDir (sanitize_relPath qp))))"
    using assms by (rule browse_cases)
next
  have "inside (path_resolve cwd (rootDir_mjs dirname (filesTab_download_root cfg)))
          (path_resolve cwd (path_join (rootDir_mjs dirname (filesTab_download_root cfg)) (sanitize_relPath_mjs qp)))"
    using isAbsolute_rootDir_mjs [OF assms] sanitize_mjs_no_dotdot_segment by (rule join_inside)
  with browse_mjs_cases [of cfg dirname readdir qp]
  show "(\<exists>status msg. browse_mjs cfg dirname readdir qp = BrowseError status msg)
       \<or> (\<exists>entries.
             readdir (path_join (rootDir_mjs dirname (filesTab_download_root cfg)) (sanitize_relPath_mjs qp)) = ReaddirEntries entries
           \<and> browse_mjs cfg dirname readdir qp =
               BrowseListing (sanitize_relPath_mjs qp) (directories_of entries) (files_of entries)
           \<and> inside (path_resolve cwd (rootDir_mjs dirname (filesTab_download_root cfg)))
                 (path_resolve cwd (path_join (rootDir_mjs dirname (filesTab_download_root cfg)) (sanitize_relPath_mjs qp))))"
    by blast
qed

theorem C1_witness:
  "isAbsolute ''/srv/app''
   \<and> browse dl_config ''/srv/app'' ''/srv/app'' readdir_example None (Some ''..'')
       = BrowseListing [] [''logs''] [''a.txt'']
   \<and> inside (path_resolve ''/srv/app'' ''/srv/app/downloads'')
        (path_resolve ''/srv/app'' (path_join ''/srv/app/downloads'' (sanitize_relPath (Some ''..''))))
   \<and> rootDir_mjs ''/srv/app'' (filesTab_download_root files_tab_config) = ''/srv/app/downloads''
   \<and> browse_mjs files_tab_config ''/srv/app'' readdir_example (Some ''..'')
       = BrowseListing [] [''logs''] [''a.txt'']
   \<and> inside (path_resolve ''/srv/app'' ''/srv/app/downloads'')
        (path_resolve ''/srv/app'' (path_join ''/srv/app/downloads'' (sanitize_relPath_mjs (Some ''..''))))
   \<and> rootDir_mjs ''/srv/app'' (filesTab_download_root dl_config) = ''/srv/app/uploads''
   \<and> browse_mjs dl_config ''/srv/app'' readdir_example (Some ''..'')
       = BrowseError 500 ''Failed to list directory''"
proof -
  have abs: "isAbsolute ''/srv/app''" by (simp add: isAbsolute_def)
  have root: "browse_root dl_config ''/srv/app'' None = Some ''/srv/app/downloads''"
    by code_simp
  have resp: "browse dl_config ''/srv/app'' ''/srv/app'' readdir_example None (Some ''..'')
       = BrowseListing [] [''logs''] [''a.txt'']"
    by code_simp
  have root_mjs: "rootDir_mjs ''/srv/app'' (filesTab_download_root files_tab_config) = ''/srv/app/downloads''"
    "rootDir_mjs ''/srv/app'' (filesTab_download_root dl_config) = ''/srv/app/uploads''"
    by code_simp+
  have resp_mjs: "browse_mjs files_tab_config ''/srv/app'' readdir_example (Some ''..'')
       = BrowseListing [] [''logs''] [''a.txt'']"
    "browse_mjs dl_config ''/srv/app'' readdir_example (Some ''..'')
       = BrowseError 500 ''Failed to list directory''"
    by code_simp+
  from C1_browse_containment [OF abs, of dl_config "''/srv/app''" readdir_example None "Some ''..''"]
    root resp abs
  have js: "inside (path_resolve ''/srv/app'' ''/srv/app/downloads'')
        (path_resolve ''/srv/app'' (path_join ''/srv/app/downloads'' (sanitize_relPath (Some ''..''))))"
    by auto
  from C1_browse_containment [OF abs, of files_tab_config "''/srv/app''" readdir_example None "Some ''..''"]
    root_mjs resp_mjs
  have mjs: "inside (path_resolve ''/srv/app'' ''/srv/app/downloads'')
        (path_resolve ''/srv/app'' (path_join ''/srv/app/downloads'' (sanitize_relPath_mjs (Some ''..''))))"
    by auto
  from abs resp js root_mjs resp_mjs mjs show ?thesis by blast
qed

lemma join_with_append:
  "xs \<noteq> [] \<Longrightarrow> ys \<noteq> [] \<Longrightarrow>
     join_with sep (xs @ ys) = join_with sep xs @ sep @ join_with sep ys"
proof (induction sep xs rule: join_with.induct)
  case (1 sep)
  then show ?case by simp
next
  case (2 sep s)
  then show ?case by (cases ys) auto
next
  case (3 sep s t ss)
  then show ?case by simp
qed

lemma prefix_rendered:
  "prefix (join_with ''/'' R) (join_with ''/'' (R @ X))"
proof (cases "R = [] \<or> X = []")
  case True
  then show ?thesis by auto
next
  case False
  then show ?thesis by (simp add: join_with_append)
qed

text \<open>
  The containment check of \<^verbatim>\<open>upload_server.js\<close> never refuses a request: once the
  runs of dots are stripped, the resolved path always starts with the resolved root, so
  the access-denied answer is not reached for any path string.
\<close>

theorem browse_check_never_refuses:
  assumes "isAbsolute dirname"
  shows "prefix (path_resolve cwd (resolveDir dirname d))
           (path_resolve cwd (path_join (resolveDir dirname d) (sanitize_relPath q)))"
proof -
  let ?root = "resolveDir dirname d"
  let ?rel = "sanitize_relPath q"
  from assms have abs: "isAbsolute ?root" by (rule isAbsolute_resolveDir)
  have "canonical_segments (path_join ?root ?rel) =
          canonical_segments ?root @ filter (\<lambda>s. s \<noteq> [] \<and> s \<noteq> ''.'') (split_on CHR ''/'' ?rel)"
    using canonical_path_join(1) [OF abs, of ?rel] sanitize_no_dotdot_segment [of q]
    by (simp add: normalize_segments_no_dotdot)
  then show ?thesis
    using abs canonical_path_join(2) [OF abs, of ?rel]
    by (simp add: path_resolve_absolute prefix_rendered)
qed

theorem browse_check_never_refuses_witness:
  "isAbsolute ''/srv/app''
   \<and> prefix (path_resolve ''/'' (resolveDir ''/srv/app'' ''downloads''))
        (path_resolve ''/'' (path_join (resolveDir ''/srv/app'' ''downloads'')
           (sanitize_relPath (Some ''../../../etc/passwd''))))
   \<and> path_join (resolveDir ''/srv/app'' ''downloads'') (sanitize_relPath (Some ''../../../etc/passwd''))
       = ''/srv/app/downloads/etc/passwd''"
proof -
  have abs: "isAbsolute ''/srv/app''" by (simp add: isAbsolute_def)
  have p: "path_join (resolveDir ''/srv/app'' ''downloads'') (sanitize_relPath (Some ''../../../etc/passwd''))
       = ''/srv/app/downloads/etc/passwd''"
    by code_simp
  from browse_check_never_refuses [OF abs, of "''/''" "''downloads''" "Some ''../../../etc/passwd''"] abs p
  show ?thesis by simp
qed

section \<open>Delete endpoint: no containment\<close>

text \<open>
  C10: the delete handler acts on \<^verbatim>\<open>path.join(UPLOAD_DIR, filename)\<close> and nothing else:
  it answers 404 exactly when nothing exists at that path, and removes the file found
  there whatever the path is; and for every upload directory other than the root there
  is a filename with a \<^verbatim>\<open>..\<close> segment whose target lies outside the upload directory.
\<close>

theorem C10_delete_no_containment:
  "delete_target D fn = path_join D fn
   \<and> (delete_status (fst (delete_handler D fs fn)) = 404 \<longleftrightarrow> fs (path_join D fn) = None)
   \<and> (\<forall>sz. fs (path_join D fn) = Some (File sz) \<longrightarrow>
         delete_handler D fs fn = (DeleteSuccess, fs (path_join D fn := None)))
   \<and> (isAbsolute D \<and> canonical_segments D \<noteq> [] \<longrightarrow>
        (\<exists>fn'. ''..'' \<in> set (split_on CHR ''/'' fn')
            \<and> \<not> inside (path_resolve cwd D) (path_resolve cwd (path_join D fn'))))"
proof (intro conjI allI impI)
  show "delete_target D fn = path_join D fn" by (simp add: delete_target_def)
next
  show "delete_status (fst (delete_handler D fs fn)) = 404 \<longleftrightarrow> fs (path_join D fn) = None"
    by (auto simp: delete_handler_def delete_target_def delete_status_def Let_def existsSync_def
        unlink_def split: option.splits node.splits sum.splits)
next
  fix sz assume "fs (path_join D fn) = Some (File sz)"
  then show "delete_handler D fs fn = (DeleteSuccess, fs (path_join D fn := None))"
    by (simp add: delete_handler_def delete_target_def Let_def existsSync_def unlink_def)
next
  assume a: "isAbsolute D \<and> canonical_segments D \<noteq> []"
  let ?R = "canonical_segments D"
  let ?y = "last ?R @ ''x''"
  let ?fn = "''../'' @ ?y"
  from a have abs: "isAbsolute D" and ne: "?R \<noteq> []" by auto
  from ne canonical_segments_proper [of D] have pl: "proper_segment (last ?R)" by simp
  then have ynosep: "CHR ''/'' \<notin> set ?y" by (simp add: proper_segment_def)
  have sp: "split_on CHR ''/'' ?fn = [''..'', ?y]"
    using split_on_append [of "CHR ''/''" "''..''" ?y] ynosep
    by (simp add: split_on_no_sep)
  from pl have y: "?y \<noteq> []" "?y \<noteq> ''.''" "?y \<noteq> ''..''"
    by (auto simp: proper_segment_def append_eq_Cons_conv)
  from pl have lr: "last ?R \<noteq> ''..''" by (simp add: proper_segment_def)
  have "canonical_segments (path_join D ?fn) = butlast ?R @ [?y]"
    using canonical_path_join(1) [OF abs, of ?fn] sp ne lr y by simp
  moreover have "\<not> prefix ?R (butlast ?R @ [?y])"
  proof
    assume "prefix ?R (butlast ?R @ [?y])"
    then have "prefix (butlast ?R @ [last ?R]) (butlast ?R @ [?y])" using ne by simp
    then show False by simp
  qed
  ultimately have "\<not> inside (path_resolve cwd D) (path_resolve cwd (path_join D ?fn))"
    using abs canonical_path_join(2) [OF abs, of ?fn]
    by (simp add: inside_def segments_of_path_resolve)
  moreover have "''..'' \<in> set (split_on CHR ''/'' ?fn)" using sp by simp
  ultimately show "\<exists>fn'. ''..'' \<in> set (split_on CHR ''/'' fn')
            \<and> \<not> inside (path_resolve cwd D) (path_resolve cwd (path_join D fn'))"
    by blast
qed

theorem C10_witness:
  "delete_handler ''/srv/app/uploads'' fs_example ''../config/config.json''
     = (DeleteSuccess, fs_example (''/srv/app/config/config.json'' := None))
   \<and> \<not> inside ''/srv/app/uploads'' ''/srv/app/config/config.json''
   \<and> delete_status (fst (delete_handler ''/srv/app/uploads'' fs_example ''nosuch.txt'')) = 404"
proof -
  have t: "path_join ''/srv/app/uploads'' ''../config/config.json'' = ''/srv/app/config/config.json''"
    by code_simp
  have f: "fs_example ''/srv/app/config/config.json'' = Some (File 120)"
    by (simp add: fs_example_def)
  have t2: "path_join ''/srv/app/uploads'' ''nosuch.txt'' = ''/srv/app/uploads/nosuch.txt''"
    by code_simp
  have f2: "fs_example ''/srv/app/uploads/nosuch.txt'' = None"
    by (simp add: fs_example_def)
  have out: "\<not> inside ''/srv/app/uploads'' ''/srv/app/config/config.json''"
    by code_simp
  from C10_delete_no_containment [of "''/srv/app/uploads''" "''../config/config.json''" fs_example]
    C10_delete_no_containment [of "''/srv/app/uploads''" "''nosuch.txt''" fs_example]
    t f t2 f2 out
  show ?thesis by simp
qed

section \<open>Upload endpoint: rejected uploads\<close>

text \<open>
  C2 (as stated, refuted): \<^verbatim>\<open>uploads/data.txt\<close> exists; a request uploads a
  \<^verbatim>\<open>data.txt\<close> of 20 bytes against a limit of 10. It is rejected, but multer has
  already written over the old file and the handler then deletes it: the directory has
  lost \<^verbatim>\<open>data.txt\<close>. And a declared limit of zero is not enforced.
\<close>

theorem C2_counterexample:
  "disk_example ''/srv/app/uploads/data.txt'' = Some (File 5)
   \<and> (case upload_handler two_uploads ''/srv/app'' ''/srv/app/uploads'' relative_example False
             disk_example (Some ''a'') (Some \<lparr>originalname = ''data.txt'', size_bytes = 20\<rparr>) of
         (response, fs', published) \<Rightarrow>
            response = UploadResponse [] False ''File size exceeds limit''
          \<and> fs' ''/srv/app/uploads/data.txt'' = None)
   \<and> fst (upload_handler zero_limit ''/srv/app'' ''/srv/app/uploads'' relative_example False
             disk_example None (Some \<lparr>originalname = ''note.txt'', size_bytes = 5\<rparr>))
       = UploadResponse ''note.txt'' True []"
  by code_simp

text \<open>
  C2 (amended): in both files, for a multipart request whose file multer has stored and
  that resolves a policy, the extension allow-list is checked first (exact membership of
  \<^verbatim>\<open>path.extname\<close> of the original name), then the size limit when a non-zero one is
  declared. On a violation
  at either step the file multer stored is deleted, the response is
  \<^verbatim>\<open>{success:false}\<close> with the step's message, nothing is published, and every other
  path of the file system is as before the request; when no file of that name was in the
  staging directory, the file system is unchanged altogether.
\<close>

theorem C2_rejected_upload:
  assumes "resolve_upload_policy cfg bn = Some uploadCfg"
    and "multer_can_store UPLOAD_DIR fs f"
  shows "(extension_refused uploadCfg (originalname f) \<longrightarrow>
            upload_handler cfg dirname UPLOAD_DIR rel bus_up fs bn (Some f)
              = (UploadResponse [] False ''File type not allowed'',
                 fs (multer_path UPLOAD_DIR f := None), []))
       \<and> (\<not> extension_refused uploadCfg (originalname f) \<and> size_refused uploadCfg (size_bytes f) \<longrightarrow>
            upload_handler cfg dirname UPLOAD_DIR rel bus_up fs bn (Some f)
              = (UploadResponse [] False ''File size exceeds limit'',
                 fs (multer_path UPLOAD_DIR f := None), []))
       \<and> (extension_refused uploadCfg (originalname f) \<longrightarrow>
            upload_handler_mjs cfg UPLOAD_DIR fs bn (Some f)
              = (UploadResponse [] False ''File type not allowed'',
                 fs (multer_path UPLOAD_DIR f := None)))
       \<and> (\<not> extension_refused uploadCfg (originalname f) \<and> size_refused uploadCfg (size_bytes f) \<longrightarrow>
            upload_handler_mjs cfg UPLOAD_DIR fs bn (Some f)
              = (UploadResponse [] False ''File size exceeds limit'',
                 fs (multer_path UPLOAD_DIR f := None)))
       \<and> (fs (multer_path UPLOAD_DIR f) = None \<longrightarrow>
            fs (multer_path UPLOAD_DIR f := None) = fs)"
proof (intro conjI impI)
  let ?p = "multer_path UPLOAD_DIR f"
  let ?fs1 = "fs (?p \<mapsto> File (size_bytes f))"
  note stored = multer_store_ok [OF assms(2)]
  have removed: "unlink ?fs1 ?p = Inr (fs (?p := None))"
    by (simp add: unlink_def)
  {
    assume "extension_refused uploadCfg (originalname f)"
    then have "upload_body cfg dirname rel bus_up ?fs1 bn (Some (f, ?p))
        = (Inl ''File type not allowed'', fs (?p := None), [])"
      using assms(1) removed by (simp add: upload_body_def)
    then show "upload_handler cfg dirname UPLOAD_DIR rel bus_up fs bn (Some f)
              = (UploadResponse [] False ''File type not allowed'', fs (?p := None), [])"
      by (simp add: upload_handler_def stored message_or_def)
  }
  {
    assume "\<not> extension_refused uploadCfg (originalname f) \<and> size_refused uploadCfg (size_bytes f)"
    then have "upload_body cfg dirname rel bus_up ?fs1 bn (Some (f, ?p))
        = (Inl ''File size exceeds limit'', fs (?p := None), [])"
      using assms(1) removed by (simp add: upload_body_def)
    then show "upload_handler cfg dirname UPLOAD_DIR rel bus_up fs bn (Some f)
              = (UploadResponse [] False ''File size exceeds limit'', fs (?p := None), [])"
      by (simp add: upload_handler_def stored message_or_def)
  }
  {
    assume "extension_refused uploadCfg (originalname f)"
    then have "upload_body_mjs cfg UPLOAD_DIR ?fs1 bn (Some (f, ?p))
        = (Inl ''File type not allowed'', fs (?p := None))"
      using assms(1) removed by (simp add: upload_body_mjs_def)
    then show "upload_handler_mjs cfg UPLOAD_DIR fs bn (Some f)
              = (UploadResponse [] False ''File type not allowed'', fs (?p := None))"
      by (simp add: upload_handler_mjs_def stored message_or_def)
  }
  {
    assume "\<not> extension_refused uploadCfg (originalname f) \<and> size_refused uploadCfg (size_bytes f)"
    then have "upload_body_mjs cfg UPLOAD_DIR ?fs1 bn (Some (f, ?p))
        = (Inl ''File size exceeds limit'', fs (?p := None))"
      using assms(1) removed by (simp add: upload_body_mjs_def)
    then show "upload_handler_mjs cfg UPLOAD_DIR fs bn (Some f)
              = (UploadResponse [] False ''File size exceeds limit'', fs (?p := None))"
      by (simp add: upload_handler_mjs_def stored message_or_def)
  }
  {
    assume "fs ?p = None"
    then show "fs (?p := None) = fs" by (simp add: fun_upd_idem_iff)
  }
qed

theorem C2_witness:
  "resolve_upload_policy two_uploads (Some ''a'') = Some upload_a
   \<and> multer_can_store ''/srv/app/uploads'' disk_example \<lparr>originalname = ''tool.exe'', size_bytes = 3\<rparr>
   \<and> allowed_extensions upload_a = Some [''.txt'', ''.csv'']
   \<and> extname ''tool.exe'' = ''.exe''
   \<and> upload_handler two_uploads ''/srv/app'' ''/srv/app/uploads'' relative_example False
         disk_example (Some ''a'') (Some \<lparr>originalname = ''tool.exe'', size_bytes = 3\<rparr>)
       = (UploadResponse [] False ''File type not allowed'', disk_example, [])
   \<and> upload_handler_mjs two_uploads ''/srv/app/uploads''
         disk_example (Some ''a'') (Some \<lparr>originalname = ''tool.exe'', size_bytes = 3\<rparr>)
       = (UploadResponse [] False ''File type not allowed'', disk_example)"
proof -
  let ?f = "\<lparr>originalname = ''tool.exe'', size_bytes = 3\<rparr>"
  have pol: "resolve_upload_policy two_uploads (Some ''a'') = Some upload_a"
    by (simp add: resolve_upload_policy_def getUploadConfig_def two_uploads_def
        policy_match_def or_null_def truthy_def upload_a_def upload_b_def blank_def)
  have can: "multer_can_store ''/srv/app/uploads'' disk_example ?f" by code_simp
  have exts: "allowed_extensions upload_a = Some [''.txt'', ''.csv'']"
    by (simp add: upload_a_def blank_def)
  have ext: "extname ''tool.exe'' = ''.exe''" by code_simp
  have ref: "extension_refused upload_a (originalname ?f)" by code_simp
  have p: "multer_path ''/srv/app/uploads'' ?f = ''/srv/app/uploads/tool.exe''" by code_simp
  have absent: "disk_example (multer_path ''/srv/app/uploads'' ?f) = None"
    unfolding p by (simp add: disk_example_def)
  from C2_rejected_upload [OF pol can, of "''/srv/app''" relative_example False]
    ref absent
  have "upload_handler two_uploads ''/srv/app'' ''/srv/app/uploads'' relative_example False
         disk_example (Some ''a'') (Some ?f)
       = (UploadResponse [] False ''File type not allowed'', disk_example, [])"
    "upload_handler_mjs two_uploads ''/srv/app/uploads'' disk_example (Some ''a'') (Some ?f)
       = (UploadResponse [] False ''File type not allowed'', disk_example)"
    by simp_all
  with pol can exts ext show ?thesis by simp
qed

text \<open>
  A request whose file multer cannot store does not reach the handler: with a directory
  at the staging path the answer is the error page of Express, and nothing is deleted.
\<close>

lemma multer_directory:
  "upload_handler two_uploads ''/srv/app'' ''/srv/app/uploads'' relative_example False
         disk_example (Some ''a'') (Some \<lparr>originalname = ''inbox'', size_bytes = 3\<rparr>)
     = (ExpressError 500 ''EISDIR: illegal operation on a directory, open'', disk_example, [])"
proof -
  let ?f = "\<lparr>originalname = ''inbox'', size_bytes = 3\<rparr>"
  have p: "multer_path ''/srv/app/uploads'' ?f = ''/srv/app/uploads/inbox''" by code_simp
  have b: "blocked_at disk_example ''/srv/app/uploads/inbox'' = None" by code_simp
  have d: "disk_example ''/srv/app/uploads/inbox'' = Some Dir" by (simp add: disk_example_def)
  show ?thesis by (simp add: upload_handler_def multer_store_def p b d)
qed

section \<open>Bus subscriptions\<close>

lemma sensorTopics_flat: "sensorTopics cfg = member_topics (all_members cfg)"
  by (simp add: sensorTopics_def all_members_def member_topics_def map_concat filter_concat
      comp_def)

lemma set_sensorTopics:
  "set (sensorTopics cfg) =
     {t. \<exists>m \<in> set (all_members cfg). mtype m = ''sensor'' \<and> topic m = Some t \<and> t \<noteq> []}"
proof -
  have eq: "is_sensor m \<and> t = show_field (topic m)
          \<longleftrightarrow> mtype m = ''sensor'' \<and> topic m = Some t \<and> t \<noteq> []" for m t
    by (cases "topic m") (auto simp: is_sensor_def truthy_def show_field_def)
  have "set (sensorTopics cfg) = {t. \<exists>m \<in> set (all_members cfg). is_sensor m \<and> t = show_field (topic m)}"
    by (auto simp: sensorTopics_flat member_topics_def image_iff)
  then show ?thesis by (simp only: eq)
qed

lemma foldl_insert: "foldl (\<lambda>subs t. insert t subs) A ts = A \<union> set ts"
  by (induction ts arbitrary: A) auto

lemma subscriptions_on_connect:
  "subscriptions (on_connect cfg s) = subscriptions s \<union> set (sensorTopics cfg)"
  by (simp add: on_connect_def foldl_insert)

lemma bus_step_inv: "sub_inv cfg s \<Longrightarrow> sub_inv cfg (bus_step format cfg plat s e)"
  by (cases e) (auto simp: sub_inv_def on_connect_def on_close_def on_message_def foldl_insert Let_def)

lemma bus_run_inv: "sub_inv cfg s \<Longrightarrow> sub_inv cfg (bus_run format cfg plat s events)"
  unfolding bus_run_def
  by (induction events arbitrary: s) (auto intro: bus_step_inv)

text \<open>
  C6: the connect handler, which runs on the first connect and on every reconnect,
  leaves the client subscribed to exactly the topics of the configuration's Sensor
  members (those with a non-empty topic); and after any sequence of connects, connection
  losses and messages, the subscriptions are that set while the connection is up. No
  handler adds or removes a topic.
\<close>

theorem C6_subscriptions:
  "(\<forall>s. mqtt_connected (on_connect cfg s)
        \<and> subscriptions (on_connect cfg s) = subscriptions s \<union>
            {t. \<exists>m \<in> set (all_members cfg). mtype m = ''sensor'' \<and> topic m = Some t \<and> t \<noteq> []})
   \<and> (\<forall>events. subscriptions (bus_run format cfg plat initial_state events) =
         (if mqtt_connected (bus_run format cfg plat initial_state events)
          then {t. \<exists>m \<in> set (all_members cfg). mtype m = ''sensor'' \<and> topic m = Some t \<and> t \<noteq> []}
          else {}))"
proof (intro conjI allI)
  fix s
  show "mqtt_connected (on_connect cfg s)" by (simp add: on_connect_def)
  show "subscriptions (on_connect cfg s) = subscriptions s \<union>
            {t. \<exists>m \<in> set (all_members cfg). mtype m = ''sensor'' \<and> topic m = Some t \<and> t \<noteq> []}"
    by (simp only: subscriptions_on_connect set_sensorTopics)
next
  fix events
  have "sub_inv cfg initial_state" by (simp add: sub_inv_def initial_state_def)
  then have "sub_inv cfg (bus_run format cfg plat initial_state events)" by (rule bus_run_inv)
  then show "subscriptions (bus_run format cfg plat initial_state events) =
         (if mqtt_connected (bus_run format cfg plat initial_state events)
          then {t. \<exists>m \<in> set (all_members cfg). mtype m = ''sensor'' \<and> topic m = Some t \<and> t \<noteq> []}
          else {})"
    by (simp only: sub_inv_def set_sensorTopics)
qed

theorem C6_witness:
  "subscriptions (bus_run (formatSensorData sensors_config plat_example) sensors_config plat_example
       initial_state [Connect, Message ''sensor/temperature'' ''ok'', Close, Connect])
     = {''sensor/temperature'', ''plant/line1/temperature'', ''sensor/compass''}"
proof -
  let ?s = "bus_run (formatSensorData sensors_config plat_example) sensors_config plat_example
       initial_state [Connect, Message ''sensor/temperature'' ''ok'', Close, Connect]"
  have up: "mqtt_connected ?s"
    by (simp add: bus_run_def on_connect_def)
  have ts: "sensorTopics sensors_config = [''sensor/temperature'', ''plant/line1/temperature'', ''sensor/compass'']"
    by code_simp
  from C6_subscriptions [of sensors_config "formatSensorData sensors_config plat_example" plat_example] up
  have "subscriptions ?s = {t. \<exists>m \<in> set (all_members sensors_config).
          mtype m = ''sensor'' \<and> topic m = Some t \<and> t \<noteq> []}"
    by simp
  also have "\<dots> = set (sensorTopics sensors_config)" by (simp only: set_sensorTopics)
  finally show ?thesis by (simp add: ts insert_commute)
qed

section \<open>Decode failures\<close>

lemma parse_message_throw:
  assumes "t \<in> set (sensorTopics cfg)" "decoder_for plat t = Some decode" "decode message = Inl err"
  shows "parse_message cfg plat t message = raw_with_error plat message err"
  using assms by (simp add: parse_message_def topicDecoderMap_def)

lemma sensor_key_decoder_topics:
  "sensor_key ''sensor/temperature'' = ''temperature''"
  "sensor_key ''sensor/compass'' = ''compass''"
  "sensor_key ''sensor/gps'' = ''gps''"
  "sensor_key ''sensor/status'' = ''status''"
  by code_simp+

lemma decoder_for_key:
  assumes "decoder_for plat t = Some decode"
  shows "sensor_key t \<noteq> ''__proto__''"
proof -
  from assms have "t \<in> set [''sensor/temperature'', ''sensor/compass'', ''sensor/gps'', ''sensor/status'']"
    by (simp add: decoder_for_def split: if_splits)
  then show ?thesis by (auto simp: sensor_key_decoder_topics)
qed

lemma on_message_registered:
  assumes "t \<in> set (sensorTopics cfg)" and "sensor_key t \<noteq> ''__proto__''"
  shows "on_message format cfg plat s t message =
     s \<lparr> latestSensorData := (latestSensorData s) (sensor_key t \<mapsto> format t (parse_message cfg plat t message)),
          clients := broadcastWS (clients s)
             (SensorUpdate (second_segment t) (format t (parse_message cfg plat t message))) \<rparr>"
  using assms by (simp add: on_message_def updateLatestSensorData_def Let_def)

lemma on_message_mjs_registered:
  assumes "t \<in> set (sensorTopics cfg)" and "sensor_key t \<noteq> ''__proto__''"
    and "formatSensorData_mjs plat t (parse_message cfg plat t message) = Inr formatted"
  shows "on_message_mjs cfg plat s t message =
     Inr (s \<lparr> latestSensorData := (latestSensorData s) (sensor_key t \<mapsto> formatted),
              clients := broadcastWS (clients s) (SensorUpdate (second_segment t) formatted) \<rparr>)"
  using assms by (simp add: on_message_mjs_def updateLatestSensorData_def)

lemma on_message_mjs_throws:
  assumes "t \<in> set (sensorTopics cfg)"
    and "formatSensorData_mjs plat t (parse_message cfg plat t message) = Inl e"
  shows "on_message_mjs cfg plat s t message = Inl e"
  using assms by (simp add: on_message_mjs_def)

lemma sent_broadcastWS:
  "map sent (broadcastWS cs ev) = map (\<lambda>c. if readyState c = 1 then sent c @ [ev] else sent c) cs"
  by (simp add: broadcastWS_def)

lemma formatSensorData_mjs_raw:
  "formatSensorData_mjs plat t (raw_with_error plat message err) = Inr (raw_with_error plat message err)"
  by (simp add: formatSensorData_mjs_def raw_with_error_def js_get_def js_truthy_def nullish_def)

text \<open>
  C5: when the decoder of a registered topic throws, the handler builds the raw object
  \<^verbatim>\<open>{ raw: <base64 of the message>, error: <the error's message> }\<close>, formats it,
  stores it in the cache under the topic's key and sends it to every open client; the
  connection state and the subscriptions are untouched. \<^verbatim>\<open>upload_server.js\<close> stores
  the raw object as the reading's \<^verbatim>\<open>value\<close>, \<^verbatim>\<open>upload_server.mjs\<close> stores the raw
  object itself: its formatter returns the raw object without throwing, and its handler
  stores and sends it.
\<close>

theorem C5_decode_failure_kept:
  assumes "t \<in> set (sensorTopics cfg)"
    and "decoder_for plat t = Some decode"
    and "decode message = Inl err"
  shows "latestSensorData (on_message format cfg plat s t message) =
           (latestSensorData s) (sensor_key t \<mapsto> format t (raw_with_error plat message err))
       \<and> map sent (clients (on_message format cfg plat s t message)) =
           map (\<lambda>c. if readyState c = 1
                     then sent c @ [SensorUpdate (second_segment t) (format t (raw_with_error plat message err))]
                     else sent c) (clients s)
       \<and> mqtt_connected (on_message format cfg plat s t message) = mqtt_connected s
       \<and> subscriptions (on_message format cfg plat s t message) = subscriptions s
       \<and> raw_with_error plat message err = JObj [(''raw'', JStr (toBase64 plat message)), (''error'', JStr err)]
       \<and> js_get (formatSensorData cfg plat t (raw_with_error plat message err)) ''value''
           = raw_with_error plat message err
       \<and> formatSensorData_mjs plat t (raw_with_error plat message err)
           = Inr (raw_with_error plat message err)
       \<and> on_message_mjs cfg plat s t message =
           Inr (s \<lparr> latestSensorData :=
                      (latestSensorData s) (sensor_key t \<mapsto> raw_with_error plat message err),
                    clients := broadcastWS (clients s)
                      (SensorUpdate (second_segment t) (raw_with_error plat message err)) \<rparr>)"
proof -
  note p = parse_message_throw [OF assms]
  note k = decoder_for_key [OF assms(2)]
  note m = on_message_registered [OF assms(1) k, of format plat s message]
  have 1: "latestSensorData (on_message format cfg plat s t message) =
           (latestSensorData s) (sensor_key t \<mapsto> format t (raw_with_error plat message err))"
    by (simp add: m p)
  have 2: "map sent (clients (on_message format cfg plat s t message)) =
           map (\<lambda>c. if readyState c = 1
                     then sent c @ [SensorUpdate (second_segment t) (format t (raw_with_error plat message err))]
                     else sent c) (clients s)"
    by (simp add: m p sent_broadcastWS)
  have 3: "mqtt_connected (on_message format cfg plat s t message) = mqtt_connected s"
    "subscriptions (on_message format cfg plat s t message) = subscriptions s"
    by (simp_all add: m)
  have 4: "js_get (formatSensorData cfg plat t (raw_with_error plat message err)) ''value''
           = raw_with_error plat message err"
    by (simp add: formatSensorData_def raw_with_error_def js_get_def)
  have 5: "formatSensorData_mjs plat t (raw_with_error plat message err)
           = Inr (raw_with_error plat message err)"
    by (rule formatSensorData_mjs_raw)
  have 6: "on_message_mjs cfg plat s t message =
           Inr (s \<lparr> latestSensorData :=
                      (latestSensorData s) (sensor_key t \<mapsto> raw_with_error plat message err),
                    clients := broadcastWS (clients s)
                      (SensorUpdate (second_segment t) (raw_with_error plat message err)) \<rparr>)"
    by (rule on_message_mjs_registered [OF assms(1) k]) (simp only: p 5)
  have 7: "raw_with_error plat message err = JObj [(''raw'', JStr (toBase64 plat message)), (''error'', JStr err)]"
    by (simp add: raw_with_error_def)
  from 1 2 3 4 5 6 7 show ?thesis by blast
qed

theorem C5_witness:
  "latestSensorData
     (on_message (formatSensorData sensors_config plat_example) sensors_config plat_example
        two_clients ''sensor/temperature'' ''bad'') ''temperature''
     = Some (JObj [(''value'', JObj [(''raw'', JStr ''YmFk''), (''error'', JStr ''index out of range'')]),
                   (''unit'', JStr ''F''), (''timestamp'', JNum 1700000000000)])
   \<and> map sent (clients
     (on_message (formatSensorData sensors_config plat_example) sensors_config plat_example
        two_clients ''sensor/temperature'' ''bad''))
     = [[SensorUpdate (Some ''temperature'')
          (JObj [(''value'', JObj [(''raw'', JStr ''YmFk''), (''error'', JStr ''index out of range'')]),
                 (''unit'', JStr ''F''), (''timestamp'', JNum 1700000000000)])], []]"
proof -
  have t: "''sensor/temperature'' \<in> set (sensorTopics sensors_config)" by code_simp
  have d: "decoder_for plat_example ''sensor/temperature'' = Some (decodeTemperatureData plat_example)"
    by (simp add: decoder_for_def)
  have e: "decodeTemperatureData plat_example ''bad'' = Inl ''index out of range''"
    by (simp add: plat_example_def)
  have k: "sensor_key ''sensor/temperature'' = ''temperature''" by code_simp
  have k2: "second_segment ''sensor/temperature'' = Some ''temperature''" by code_simp
  have f: "formatSensorData sensors_config plat_example ''sensor/temperature''
             (raw_with_error plat_example ''bad'' ''index out of range'')
           = JObj [(''value'', JObj [(''raw'', JStr ''YmFk''), (''error'', JStr ''index out of range'')]),
                   (''unit'', JStr ''F''), (''timestamp'', JNum 1700000000000)]"
    by code_simp
  have c: "clients two_clients = [\<lparr> readyState = 1, sent = [] \<rparr>, \<lparr> readyState = 3, sent = [] \<rparr>]"
    by (simp add: two_clients_def)
  from C5_decode_failure_kept [OF t d e, of "formatSensorData sensors_config plat_example" two_clients]
  show ?thesis by (simp add: k k2 f c)
qed

text \<open>
  Topic scoping: a message on a topic that is not a configured sensor topic changes
  nothing: no cache entry, no broadcast.
\<close>

theorem unconfigured_topic_ignored:
  assumes "t \<notin> set (sensorTopics cfg)"
  shows "on_message format cfg plat s t message = s"
  using assms by (simp add: on_message_def)

theorem unconfigured_topic_ignored_witness:
  "''sensor/humidity'' \<notin> set (sensorTopics sensors_config)
   \<and> on_message (formatSensorData sensors_config plat_example) sensors_config plat_example
        two_clients ''sensor/humidity'' ''ok'' = two_clients"
proof -
  have "''sensor/humidity'' \<notin> set (sensorTopics sensors_config)" by code_simp
  with unconfigured_topic_ignored [of "''sensor/humidity''" sensors_config] show ?thesis by simp
qed

section \<open>Sensor cache keys\<close>

text \<open>
  C7 (as stated, refuted): the key of a three-segment topic is its second segment, not
  its last.
\<close>

theorem C7_counterexample:
  "''plant/line1/temperature'' \<in> set (sensorTopics sensors_config)
   \<and> sensor_key ''plant/line1/temperature'' = ''line1''
   \<and> last (split_on CHR ''/'' ''plant/line1/temperature'') = ''temperature''"
  by code_simp

lemma second_segment_nth:
  "second_segment t =
     (if 1 < length (split_on CHR ''/'' t) then Some (split_on CHR ''/'' t ! 1) else None)"
  by (auto simp: second_segment_def split: list.splits)

text \<open>
  What the handlers assign under the key \<^verbatim>\<open>__proto__\<close> is an object: a topic with that
  key has no decoder, its message is parsed to \<^verbatim>\<open>{ raw: ... }\<close>, and either formatter
  returns an object for it.
\<close>

lemma proto_key_formatted_object:
  assumes "sensor_key t = ''__proto__''"
  shows "parse_message cfg plat t message = JObj [(''raw'', JStr (toBase64 plat message))]"
    and "\<exists>props. formatSensorData cfg plat t (parse_message cfg plat t message) = JObj props"
    and "formatSensorData_mjs plat t (parse_message cfg plat t message)
           = Inr (JObj [(''raw'', JStr (toBase64 plat message))])"
proof -
  have no: "decoder_for plat t = None"
  proof (cases "decoder_for plat t")
    case None
    then show ?thesis .
  next
    case (Some decode)
    from decoder_for_key [OF Some] assms show ?thesis by simp
  qed
  then show p: "parse_message cfg plat t message = JObj [(''raw'', JStr (toBase64 plat message))]"
    by (simp add: parse_message_def topicDecoderMap_def)
  show "\<exists>props. formatSensorData cfg plat t (parse_message cfg plat t message) = JObj props"
    by (simp add: formatSensorData_def Let_def)
  from no have "t \<notin> set [''sensor/gps'', ''sensor/temperature'', ''sensor/compass'', ''sensor/status'']"
    by (auto simp: decoder_for_def split: if_splits)
  then show "formatSensorData_mjs plat t (parse_message cfg plat t message)
           = Inr (JObj [(''raw'', JStr (toBase64 plat message))])"
    by (simp add: p formatSensorData_mjs_def)
qed

text \<open>
  C7 (amended): the cache key of a topic is its second \<^verbatim>\<open>/\<close>-separated segment when
  there is one and it is not empty, and the whole topic otherwise; for a topic of at most
  two segments whose last segment is not empty, such as \<^verbatim>\<open>sensor/temperature\<close>, that is
  the last segment. In \<^verbatim>\<open>upload_server.js\<close> a message on a registered topic whose key is
  not \<^verbatim>\<open>__proto__\<close> is formatted and stored under that key, and the \<^verbatim>\<open>sensor_update\<close>
  event sent to the open clients carries the formatted reading; in \<^verbatim>\<open>upload_server.mjs\<close>
  the same holds when the formatter returns, and when the formatter throws the handler
  throws and nothing is stored or sent. The event names the second segment (which is the
  key, or is missing or empty).
\<close>

theorem C7_sensor_key:
  "sensor_key t =
     (if 1 < length (split_on CHR ''/'' t) \<and> split_on CHR ''/'' t ! 1 \<noteq> []
      then split_on CHR ''/'' t ! 1 else t)
   \<and> (length (split_on CHR ''/'' t) \<le> 2 \<and> last (split_on CHR ''/'' t) \<noteq> []
        \<longrightarrow> sensor_key t = last (split_on CHR ''/'' t))
   \<and> (t \<in> set (sensorTopics cfg) \<and> sensor_key t \<noteq> ''__proto__'' \<longrightarrow>
        on_message (formatSensorData cfg plat) cfg plat s t message =
          s \<lparr> latestSensorData := (latestSensorData s)
                 (sensor_key t \<mapsto> formatSensorData cfg plat t (parse_message cfg plat t message)),
               clients := map (\<lambda>c. if readyState c = 1
                    then c \<lparr> sent := sent c @ [SensorUpdate (second_segment t)
                            (formatSensorData cfg plat t (parse_message cfg plat t message))] \<rparr>
                    else c) (clients s) \<rparr>)
   \<and> (t \<in> set (sensorTopics cfg) \<and> sensor_key t \<noteq> ''__proto__'' \<longrightarrow>
        (\<forall>formatted. formatSensorData_mjs plat t (parse_message cfg plat t message) = Inr formatted \<longrightarrow>
           on_message_mjs cfg plat s t message =
             Inr (s \<lparr> latestSensorData := (latestSensorData s) (sensor_key t \<mapsto> formatted),
                      clients := map (\<lambda>c. if readyState c = 1
                          then c \<lparr> sent := sent c @ [SensorUpdate (second_segment t) formatted] \<rparr>
                          else c) (clients s) \<rparr>)))
   \<and> (t \<in> set (sensorTopics cfg) \<longrightarrow>
        (\<forall>e. formatSensorData_mjs plat t (parse_message cfg plat t message) = Inl e \<longrightarrow>
           on_message_mjs cfg plat s t message = Inl e))
   \<and> (second_segment t = Some (sensor_key t) \<or> second_segment t = None \<or> second_segment t = Some [])"
proof (intro conjI impI allI)
  show key: "sensor_key t =
     (if 1 < length (split_on CHR ''/'' t) \<and> split_on CHR ''/'' t ! 1 \<noteq> []
      then split_on CHR ''/'' t ! 1 else t)"
    by (simp add: sensor_key_def second_segment_nth truthy_def show_field_def)
  show "second_segment t = Some (sensor_key t) \<or> second_segment t = None \<or> second_segment t = Some []"
    by (simp add: sensor_key_def second_segment_nth truthy_def show_field_def)
next
  assume a: "length (split_on CHR ''/'' t) \<le> 2 \<and> last (split_on CHR ''/'' t) \<noteq> []"
  let ?segs = "split_on CHR ''/'' t"
  have ne: "?segs \<noteq> []" by (rule split_on_nonempty)
  show "sensor_key t = last ?segs"
  proof (cases "length ?segs = 2")
    case True
    then obtain a' b where segs: "?segs = [a', b]"
      by (cases ?segs) (auto simp: length_Suc_conv)
    with a show ?thesis
      by (simp add: sensor_key_def second_segment_def truthy_def show_field_def)
  next
    case False
    with a ne have "length ?segs = 1"
      by (cases ?segs) (auto simp: le_Suc_eq)
    then obtain a' where segs: "?segs = [a']"
      by (auto simp: length_Suc_conv)
    have "CHR ''/'' \<notin> set t"
    proof
      assume "CHR ''/'' \<in> set t"
      then obtain u v where "t = u @ CHR ''/'' # v" by (auto simp: in_set_conv_decomp)
      then have "?segs = split_on CHR ''/'' u @ split_on CHR ''/'' v"
        by (simp add: split_on_append)
      with segs split_on_nonempty [of "CHR ''/''" u] split_on_nonempty [of "CHR ''/''" v]
      show False by (cases "split_on CHR ''/'' u"; cases "split_on CHR ''/'' v") auto
    qed
    then have "?segs = [t]" by (rule split_on_no_sep)
    then show ?thesis
      by (simp add: sensor_key_def second_segment_def truthy_def show_field_def)
  qed
next
  assume t: "t \<in> set (sensorTopics cfg) \<and> sensor_key t \<noteq> ''__proto__''"
  then show "on_message (formatSensorData cfg plat) cfg plat s t message =
          s \<lparr> latestSensorData := (latestSensorData s)
                 (sensor_key t \<mapsto> formatSensorData cfg plat t (parse_message cfg plat t message)),
               clients := map (\<lambda>c. if readyState c = 1
                    then c \<lparr> sent := sent c @ [SensorUpdate (second_segment t)
                            (formatSensorData cfg plat t (parse_message cfg plat t message))] \<rparr>
                    else c) (clients s) \<rparr>"
    by (simp add: on_message_registered broadcastWS_def)
next
  fix formatted
  assume t: "t \<in> set (sensorTopics cfg) \<and> sensor_key t \<noteq> ''__proto__''"
    and f: "formatSensorData_mjs plat t (parse_message cfg plat t message) = Inr formatted"
  then show "on_message_mjs cfg plat s t message =
             Inr (s \<lparr> latestSensorData := (latestSensorData s) (sensor_key t \<mapsto> formatted),
                      clients := map (\<lambda>c. if readyState c = 1
                          then c \<lparr> sent := sent c @ [SensorUpdate (second_segment t) formatted] \<rparr>
                          else c) (clients s) \<rparr>)"
    by (simp add: on_message_mjs_registered broadcastWS_def)
next
  fix e
  assume "t \<in> set (sensorTopics cfg)"
    and "formatSensorData_mjs plat t (parse_message cfg plat t message) = Inl e"
  then show "on_message_mjs cfg plat s t message = Inl e"
    by (rule on_message_mjs_throws)
qed

theorem C7_witness:
  "sensor_key ''sensor/temperature'' = ''temperature''
   \<and> ''sensor/temperature'' \<in> set (sensorTopics sensors_config)
   \<and> latestSensorData
       (on_message (formatSensorData sensors_config plat_example) sensors_config plat_example
          two_clients ''sensor/temperature'' ''ok'') ''temperature''
     = Some (JObj [(''value'', JNum 21.5), (''unit'', JStr ''F''), (''timestamp'', JNum 1700000000000)])
   \<and> formatSensorData_mjs plat_example ''sensor/temperature''
        (parse_message sensors_config plat_example ''sensor/temperature'' ''ok'')
     = Inr (JObj [(''value'', JNum 21.5), (''unit'', JStr degrees_celsius),
                  (''timestamp'', JStr ''2023-11-14T22:13:20.000Z''),
                  (''description'', JStr ''CPU Temperature'')])
   \<and> (case on_message_mjs sensors_config plat_example two_clients ''sensor/temperature'' ''ok'' of
         Inl e \<Rightarrow> None
       | Inr s' \<Rightarrow> latestSensorData s' ''temperature'')
     = Some (JObj [(''value'', JNum 21.5), (''unit'', JStr degrees_celsius),
                   (''timestamp'', JStr ''2023-11-14T22:13:20.000Z''),
                   (''description'', JStr ''CPU Temperature'')])"
proof -
  have t: "''sensor/temperature'' \<in> set (sensorTopics sensors_config)" by code_simp
  have segs: "split_on CHR ''/'' ''sensor/temperature'' = [''sensor'', ''temperature'']" by code_simp
  have p: "parse_message sensors_config plat_example ''sensor/temperature'' ''ok''
           = JObj [(''temperature'', JNum 21.5)]"
    by (simp add: parse_message_def topicDecoderMap_def t decoder_for_def plat_example_def)
  have f: "formatSensorData sensors_config plat_example ''sensor/temperature''
             (JObj [(''temperature'', JNum 21.5)])
           = JObj [(''value'', JNum 21.5), (''unit'', JStr ''F''), (''timestamp'', JNum 1700000000000)]"
    by code_simp
  have g: "formatSensorData_mjs plat_example ''sensor/temperature''
             (JObj [(''temperature'', JNum 21.5)])
           = Inr (JObj [(''value'', JNum 21.5), (''unit'', JStr degrees_celsius),
                  (''timestamp'', JStr ''2023-11-14T22:13:20.000Z''),
                  (''description'', JStr ''CPU Temperature'')])"
    by (simp add: formatSensorData_mjs_def nullish_def js_get_def js_or_def js_truthy_def
        plat_example_def)
  note c7 = C7_sensor_key [of "''sensor/temperature''" sensors_config plat_example two_clients "''ok''"]
  from c7 have k: "sensor_key ''sensor/temperature'' = ''temperature''"
    by (simp add: segs)
  from c7 t k have js: "on_message (formatSensorData sensors_config plat_example) sensors_config
          plat_example two_clients ''sensor/temperature'' ''ok'' =
          two_clients \<lparr> latestSensorData := (latestSensorData two_clients)
                 (''temperature'' \<mapsto> formatSensorData sensors_config plat_example ''sensor/temperature''
                     (JObj [(''temperature'', JNum 21.5)])),
               clients := map (\<lambda>c. if readyState c = 1
                    then c \<lparr> sent := sent c @ [SensorUpdate (second_segment ''sensor/temperature'')
                            (formatSensorData sensors_config plat_example ''sensor/temperature''
                               (JObj [(''temperature'', JNum 21.5)]))] \<rparr>
                    else c) (clients two_clients) \<rparr>"
    by (simp add: p)
  from c7 t k g have mjs: "on_message_mjs sensors_config plat_example two_clients
          ''sensor/temperature'' ''ok'' =
          Inr (two_clients \<lparr> latestSensorData := (latestSensorData two_clients)
                 (''temperature'' \<mapsto> JObj [(''value'', JNum 21.5), (''unit'', JStr degrees_celsius),
                  (''timestamp'', JStr ''2023-11-14T22:13:20.000Z''),
                  (''description'', JStr ''CPU Temperature'')]),
               clients := map (\<lambda>c. if readyState c = 1
                    then c \<lparr> sent := sent c @ [SensorUpdate (second_segment ''sensor/temperature'')
                            (JObj [(''value'', JNum 21.5), (''unit'', JStr degrees_celsius),
                  (''timestamp'', JStr ''2023-11-14T22:13:20.000Z''),
                  (''description'', JStr ''CPU Temperature'')])] \<rparr>
                    else c) (clients two_clients) \<rparr>)"
    by (simp add: p)
  show ?thesis unfolding js mjs using f g by (simp add: k t p)
qed

text \<open>
  The key \<^verbatim>\<open>__proto__\<close> stores nothing, and a GPS message without coordinates makes the
  handler of \<^verbatim>\<open>upload_server.mjs\<close> throw.
\<close>

lemma proto_key_not_stored:
  assumes "sensor_key t = ''__proto__''"
  shows "latestSensorData (on_message format cfg plat s t message) = latestSensorData s"
  using assms by (simp add: on_message_def updateLatestSensorData_def Let_def)

lemma proto_key_example:
  "''x/__proto__'' \<in> set (sensorTopics gps_config)
   \<and> latestSensorData (on_message (formatSensorData gps_config plat_example) gps_config plat_example
        two_clients ''x/__proto__'' ''ok'') = latestSensorData two_clients"
proof -
  have "''x/__proto__'' \<in> set (sensorTopics gps_config)" by code_simp
  moreover have "sensor_key ''x/__proto__'' = ''__proto__''" by code_simp
  ultimately show ?thesis by (simp add: proto_key_not_stored)
qed

lemma gps_without_coordinates:
  "on_message_mjs gps_config plat_example two_clients ''sensor/gps'' ''nofix'' = Inl ''TypeError''"
proof -
  have t: "''sensor/gps'' \<in> set (sensorTopics gps_config)" by code_simp
  have p: "parse_message gps_config plat_example ''sensor/gps'' ''nofix'' = JObj [(''position'', JObj [])]"
    by (simp add: parse_message_def topicDecoderMap_def t decoder_for_def plat_example_def)
  have "formatSensorData_mjs plat_example ''sensor/gps'' (JObj [(''position'', JObj [])]) = Inl ''TypeError''"
    by (simp add: formatSensorData_mjs_def gps_value_def nullish_def js_get_def js_truthy_def)
  with t p show ?thesis by (simp add: on_message_mjs_def)
qed

lemma status_label_examples:
  "status_label plat (JNum 1) = Inr (JStr ''ONLINE'')"
  "status_label plat (JStr ''3'') = Inr (JStr ''ERROR'')"
  "status_label plat (JNum 7) = Inr (JStr ''UNKNOWN'')"
  "status_label plat (JStr ''length'') = Inr (JNum 4)"
  "status_label plat (JObj [(''toString'', JNull)]) = Inl ''TypeError''"
  by (simp_all add: status_label_def statusMap_lookup_def statusMap_at_def js_or_def js_truthy_def)

section \<open>Unit resolution\<close>

text \<open>
  C8 (as stated, refuted): a sensor without a declared unit whose payload carries the
  unit \<^verbatim>\<open>K\<close> is formatted by \<^verbatim>\<open>upload_server.js\<close> with the empty unit; and a sensor
  whose member declares \<^verbatim>\<open>F\<close> is formatted by \<^verbatim>\<open>upload_server.mjs\<close>, which never reads
  the configuration, with the default unit.
\<close>

theorem C8_counterexample:
  "unit (sensor_of ''sensor/temperature'' None) = None
   \<and> js_get (JObj [(''temperature'', JNum 21.5), (''unit'', JStr ''K'')]) ''unit'' = JStr ''K''
   \<and> js_get (formatSensorData temperature_without_unit plat_example ''sensor/temperature''
               (JObj [(''temperature'', JNum 21.5), (''unit'', JStr ''K'')])) ''unit'' = JStr []
   \<and> getUnitForTopic sensors_config ''sensor/temperature'' = ''F''
   \<and> formatSensorData_mjs plat_example ''sensor/temperature'' (JObj [(''temperature'', JNum 21.5)])
       = Inr (JObj [(''value'', JNum 21.5), (''unit'', JStr degrees_celsius),
                    (''timestamp'', JStr ''2023-11-14T22:13:20.000Z''),
                    (''description'', JStr ''CPU Temperature'')])"
proof -
  have "unit (sensor_of ''sensor/temperature'' None) = None
   \<and> js_get (JObj [(''temperature'', JNum 21.5), (''unit'', JStr ''K'')]) ''unit'' = JStr ''K''
   \<and> js_get (formatSensorData temperature_without_unit plat_example ''sensor/temperature''
               (JObj [(''temperature'', JNum 21.5), (''unit'', JStr ''K'')])) ''unit'' = JStr []
   \<and> getUnitForTopic sensors_config ''sensor/temperature'' = ''F''"
    by code_simp
  moreover have "formatSensorData_mjs plat_example ''sensor/temperature'' (JObj [(''temperature'', JNum 21.5)])
       = Inr (JObj [(''value'', JNum 21.5), (''unit'', JStr degrees_celsius),
                    (''timestamp'', JStr ''2023-11-14T22:13:20.000Z''),
                    (''description'', JStr ''CPU Temperature'')])"
    by (simp add: formatSensorData_mjs_def nullish_def js_get_def js_or_def js_truthy_def
        plat_example_def)
  ultimately show ?thesis by blast
qed

lemma getUnitForTopic_find:
  "getUnitForTopic cfg t =
     (case List.find (\<lambda>m. mtype m = ''sensor'' \<and> topic m = Some t) (all_members cfg) of
        Some m \<Rightarrow> (case unit m of None \<Rightarrow> [] | Some u \<Rightarrow> u)
      | None \<Rightarrow> [])"
  by (simp add: getUnitForTopic_def find_in_tabs_eq_find all_members_def)

lemma gps_value_numbers:
  "is_number (js_get position ''latitude'') \<and> is_number (js_get position ''longitude'')
     \<Longrightarrow> \<exists>v. gps_value plat position = Inr v"
  by (auto simp: gps_value_def is_number_def split: jsval.splits)

lemma gps_value_throws:
  "\<not> (is_number (js_get position ''latitude'') \<and> is_number (js_get position ''longitude''))
     \<Longrightarrow> gps_value plat position = Inl ''TypeError''"
  by (auto simp: gps_value_def is_number_def split: jsval.splits)

text \<open>
  C8 (amended): in \<^verbatim>\<open>upload_server.js\<close> the unit is the one declared on the first
  Sensor member with the message's topic, and empty when there is none; the payload is
  not consulted. In \<^verbatim>\<open>upload_server.mjs\<close> the configuration is not consulted: a
  temperature or compass payload that carries its reading is formatted with the payload's
  unit when it is truthy and the kind's default otherwise, and so is a GPS payload with a
  position whose latitude and longitude are numbers; for a GPS payload with a position
  that lacks a numeric latitude or longitude the formatter throws and there is no reading.
\<close>

theorem C8_unit_resolution:
  "js_get (formatSensorData cfg plat t parsed) ''unit'' =
     JStr (case List.find (\<lambda>m. mtype m = ''sensor'' \<and> topic m = Some t) (all_members cfg) of
             Some m \<Rightarrow> (case unit m of None \<Rightarrow> [] | Some u \<Rightarrow> u)
           | None \<Rightarrow> [])
   \<and> ((t = ''sensor/temperature'' \<and> js_get parsed ''temperature'' \<noteq> JUndefined) \<longrightarrow>
        (\<exists>r. formatSensorData_mjs plat t parsed = Inr r
           \<and> js_get r ''unit'' =
               (if js_truthy (js_get parsed ''unit'') then js_get parsed ''unit'' else JStr degrees_celsius)))
   \<and> ((t = ''sensor/compass'' \<and> js_get parsed ''heading'' \<noteq> JUndefined) \<longrightarrow>
        (\<exists>r. formatSensorData_mjs plat t parsed = Inr r
           \<and> js_get r ''unit'' =
               (if js_truthy (js_get parsed ''unit'') then js_get parsed ''unit'' else JStr ''degrees'')))
   \<and> ((t = ''sensor/gps'' \<and> js_truthy (js_get parsed ''position'')
         \<and> is_number (js_get (js_get parsed ''position'') ''latitude'')
         \<and> is_number (js_get (js_get parsed ''position'') ''longitude'')) \<longrightarrow>
        (\<exists>r. formatSensorData_mjs plat t parsed = Inr r
           \<and> js_get r ''unit'' =
               (if js_truthy (js_get parsed ''unit'') then js_get parsed ''unit'' else JStr ''decimal_degrees'')))
   \<and> ((t = ''sensor/gps'' \<and> js_truthy (js_get parsed ''position'')
         \<and> \<not> (is_number (js_get (js_get parsed ''position'') ''latitude'')
              \<and> is_number (js_get (js_get parsed ''position'') ''longitude''))) \<longrightarrow>
        formatSensorData_mjs plat t parsed = Inl ''TypeError'')"
proof (intro conjI impI)
  show "js_get (formatSensorData cfg plat t parsed) ''unit'' =
     JStr (case List.find (\<lambda>m. mtype m = ''sensor'' \<and> topic m = Some t) (all_members cfg) of
             Some m \<Rightarrow> (case unit m of None \<Rightarrow> [] | Some u \<Rightarrow> u)
           | None \<Rightarrow> [])"
    by (simp add: formatSensorData_def js_get_def Let_def getUnitForTopic_find)
next
  assume a: "t = ''sensor/temperature'' \<and> js_get parsed ''temperature'' \<noteq> JUndefined"
  then have "\<not> nullish parsed" by (auto simp: nullish_def js_get_def)
  with a show "\<exists>r. formatSensorData_mjs plat t parsed = Inr r
           \<and> js_get r ''unit'' =
               (if js_truthy (js_get parsed ''unit'') then js_get parsed ''unit'' else JStr degrees_celsius)"
    by (simp add: formatSensorData_mjs_def js_or_def js_get_def)
next
  assume a: "t = ''sensor/compass'' \<and> js_get parsed ''heading'' \<noteq> JUndefined"
  then have "\<not> nullish parsed" by (auto simp: nullish_def js_get_def)
  with a show "\<exists>r. formatSensorData_mjs plat t parsed = Inr r
           \<and> js_get r ''unit'' =
               (if js_truthy (js_get parsed ''unit'') then js_get parsed ''unit'' else JStr ''degrees'')"
    by (simp add: formatSensorData_mjs_def js_or_def js_get_def)
next
  assume a: "t = ''sensor/gps'' \<and> js_truthy (js_get parsed ''position'')
         \<and> is_number (js_get (js_get parsed ''position'') ''latitude'')
         \<and> is_number (js_get (js_get parsed ''position'') ''longitude'')"
  then have n: "\<not> nullish parsed" by (auto simp: nullish_def js_get_def js_truthy_def)
  from a gps_value_numbers [of "js_get parsed ''position''" plat]
  obtain v where v: "gps_value plat (js_get parsed ''position'') = Inr v" by blast
  from a n v show "\<exists>r. formatSensorData_mjs plat t parsed = Inr r
           \<and> js_get r ''unit'' =
               (if js_truthy (js_get parsed ''unit'') then js_get parsed ''unit'' else JStr ''decimal_degrees'')"
    by (simp add: formatSensorData_mjs_def js_or_def js_get_def)
next
  assume a: "t = ''sensor/gps'' \<and> js_truthy (js_get parsed ''position'')
         \<and> \<not> (is_number (js_get (js_get parsed ''position'') ''latitude'')
              \<and> is_number (js_get (js_get parsed ''position'') ''longitude''))"
  then have "gps_value plat (js_get parsed ''position'') = Inl ''TypeError''"
    by (simp add: gps_value_throws)
  with a show "formatSensorData_mjs plat t parsed = Inl ''TypeError''"
    by (simp add: formatSensorData_mjs_def)
qed

theorem C8_witness:
  "js_get (formatSensorData sensors_config plat_example ''sensor/temperature''
             (JObj [(''temperature'', JNum 70), (''unit'', JStr ''K'')])) ''unit'' = JStr ''F''
   \<and> formatSensorData_mjs plat_example ''sensor/temperature''
         (JObj [(''temperature'', JNum 70), (''unit'', JStr ''K'')])
       = Inr (JObj [(''value'', JNum 70), (''unit'', JStr ''K''),
                    (''timestamp'', JStr ''2023-11-14T22:13:20.000Z''),
                    (''description'', JStr ''CPU Temperature'')])
   \<and> formatSensorData_mjs plat_example ''sensor/gps''
         (JObj [(''position'', JObj [(''latitude'', JNum 32), (''longitude'', JNum 35)])])
       = Inr (JObj [(''value'', JStr ''32.000000, 35.000000''), (''unit'', JStr ''decimal_degrees''),
                    (''timestamp'', JStr ''2023-11-14T22:13:20.000Z''),
                    (''description'', JStr ''GPS Location'')])
   \<and> formatSensorData_mjs plat_example ''sensor/gps''
         (JObj [(''position'', JObj [(''latitude'', JStr ''32'')])]) = Inl ''TypeError''"
proof -
  let ?p = "JObj [(''temperature'', JNum 70), (''unit'', JStr ''K'')]"
  let ?g = "JObj [(''position'', JObj [(''latitude'', JNum 32), (''longitude'', JNum 35)])]"
  let ?b = "JObj [(''position'', JObj [(''latitude'', JStr ''32'')])]"
  have f: "List.find (\<lambda>m. mtype m = ''sensor'' \<and> topic m = Some ''sensor/temperature'')
             (all_members sensors_config) = Some (sensor_of ''sensor/temperature'' (Some ''F''))"
    by (simp add: sensors_config_def all_members_def sensor_of_def blank_def)
  have u: "unit (sensor_of ''sensor/temperature'' (Some ''F'')) = Some ''F''"
    by (simp add: sensor_of_def blank_def)
  have g: "js_get ?p ''temperature'' = JNum 70" "js_get ?p ''unit'' = JStr ''K''"
    by (simp_all add: js_get_def)
  have e1: "formatSensorData_mjs plat_example ''sensor/temperature'' ?p
       = Inr (JObj [(''value'', JNum 70), (''unit'', JStr ''K''),
                    (''timestamp'', JStr ''2023-11-14T22:13:20.000Z''),
                    (''description'', JStr ''CPU Temperature'')])"
    by (simp add: formatSensorData_mjs_def nullish_def js_get_def js_or_def js_truthy_def
        plat_example_def)
  have e2: "formatSensorData_mjs plat_example ''sensor/gps'' ?g
       = Inr (JObj [(''value'', JStr ''32.000000, 35.000000''), (''unit'', JStr ''decimal_degrees''),
                    (''timestamp'', JStr ''2023-11-14T22:13:20.000Z''),
                    (''description'', JStr ''GPS Location'')])"
    by (simp add: formatSensorData_mjs_def gps_value_def nullish_def js_get_def js_or_def
        js_truthy_def plat_example_def)
  have h: "js_truthy (js_get ?b ''position'')"
    "\<not> is_number (js_get (js_get ?b ''position'') ''longitude'')"
    by (simp_all add: js_get_def js_truthy_def is_number_def)
  from C8_unit_resolution [of sensors_config plat_example "''sensor/temperature''" ?p]
  have 1: "js_get (formatSensorData sensors_config plat_example ''sensor/temperature'' ?p) ''unit''
      = JStr ''F''"
    by (simp add: f u)
  from C8_unit_resolution [of sensors_config plat_example "''sensor/gps''" ?b] h
  have 2: "formatSensorData_mjs plat_example ''sensor/gps'' ?b = Inl ''TypeError''"
    by simp
  from 1 2 e1 e2 show ?thesis by blast
qed

section \<open>Action dispatch\<close>

text \<open>
  C9 (as stated, refuted): the client is disconnected and its reconnect attempt will
  fail; \<^verbatim>\<open>reconnect()\<close> returns at once, the handler publishes and answers
  \<^verbatim>\<open>success: true\<close>.
\<close>

theorem C9_counterexample:
  "client_connected broker_down = False
   \<and> reconnect_succeeds broker_down = False
   \<and> action_handler sensors_config broker_down (Some ''restart'') (JStr ''now'')
       = (ActionResponse ''Action sent'' True [], [Reconnect, Publish ''cmd/restart'' (JStr ''now'')])"
  by code_simp

text \<open>
  C9 (amended): for an action that resolves to a Button member with a publish topic while
  the client is not connected, the handler calls \<^verbatim>\<open>reconnect()\<close> exactly once, before
  publishing, and does not look at how the attempt ends. The response is a failure
  exactly when \<^verbatim>\<open>reconnect()\<close> or \<^verbatim>\<open>publish()\<close> throws; otherwise it reports
  success.
\<close>

theorem C9_reconnect_once:
  assumes "find_button cfg a = Some b" and "truthy (publish_topic b)" and "a \<noteq> []"
    and "\<not> client_connected client"
  shows "snd (action_handler cfg client (Some a) v) =
           Reconnect # (if reconnect_throws client = None
                        then [Publish (show_field (publish_topic b))
                                (if v \<noteq> JUndefined \<and> v \<noteq> JNull then v else JStr [])]
                        else [])
       \<and> length (filter (\<lambda>c. c = Reconnect) (snd (action_handler cfg client (Some a) v))) = 1
       \<and> (action_success (fst (action_handler cfg client (Some a) v))
            \<longleftrightarrow> reconnect_throws client = None \<and> publish_throws client = None)
       \<and> (reconnect_throws client = None \<and> publish_throws client = None \<longrightarrow>
            fst (action_handler cfg client (Some a) v) = ActionResponse ''Action sent'' True [])"
  using assms
  by (auto simp: action_handler_def action_body_def Let_def truthy_def show_field_def
      split: option.splits)

theorem C9_witness:
  "snd (action_handler sensors_config broker_down (Some ''restart'') JUndefined)
     = [Reconnect, Publish ''cmd/restart'' (JStr [])]
   \<and> action_success (fst (action_handler sensors_config
         (broker_down \<lparr> reconnect_throws := Some ''client disconnecting'' \<rparr>) (Some ''restart'') JUndefined))
     = False"
proof -
  have b: "find_button sensors_config ''restart'' = Some (button_of ''restart'' ''cmd/restart'')"
    by code_simp
  have p: "truthy (publish_topic (button_of ''restart'' ''cmd/restart''))"
    "show_field (publish_topic (button_of ''restart'' ''cmd/restart'')) = ''cmd/restart''"
    by (simp_all add: button_of_def blank_def truthy_def show_field_def)
  have n: "''restart'' \<noteq> []" by simp
  have d: "\<not> client_connected broker_down"
    "\<not> client_connected (broker_down \<lparr> reconnect_throws := Some ''client disconnecting'' \<rparr>)"
    by (simp_all add: broker_down_def)
  from C9_reconnect_once [OF b p(1) n d(1), of JUndefined]
    C9_reconnect_once [OF b p(1) n d(2), of JUndefined]
  show ?thesis by (simp add: p(2) broker_down_def)
qed

end
